theory Spec2Isabelle
  imports Complex_Main
begin

section \<open>The ROI tracker of GIO-Crypto-Bot\<close>

text \<open>
  The repository holds two copies of the tracker class \<open>ROITracker\<close>:
  \<^verbatim>\<open>telegram_bot/roi_tracker.py\<close> and \<^verbatim>\<open>trading/roi_tracker.py\<close>. They share
  \<open>register_signal\<close>, \<open>update_signal_price\<close>, \<open>_close_signal\<close> and \<open>get_statistics\<close>
  line for line and differ in three places: the \<open>entry_price == 0\<close> guards of
  \<open>_handle_tp_hit\<close>, \<open>_handle_sl_hit\<close> and \<open>_calculate_current_roi\<close>, the retry loop of
  \<open>_update_signal_in_db\<close>, and the columns of the SQL statements. Every function below
  takes the copy it embeds as its first argument and branches on it exactly where the two
  files differ.

  Python floats are modelled as \<open>real\<close>. The allocation constants 0.25, 0.5 and 0.25 and
  their sums are exact in binary floating point as well.
\<close>

datatype variant = Telegram_bot | Trading

text \<open>A naive \<open>datetime\<close>, counted in microseconds from 0001-01-01T00:00:00. The strings
  made by \<open>isoformat()\<close> and read back by \<open>fromisoformat\<close> are identified with it.\<close>

type_synonym datetime = int

datatype py_error = KeyError | ZeroDivisionError | OverflowError

definition py_div :: "real \<Rightarrow> real \<Rightarrow> py_error + real" where
  "py_div a b = (if b = 0 then Inl ZeroDivisionError else Inr (a / b))"

subsection \<open>The data model\<close>

text \<open>A fill is the dict appended to \<open>metrics.fills\<close>.\<close>

record fill =
  level :: string
  price :: real
  percentage :: real
  profit_percent :: real
  weighted_profit :: real
  timestamp :: datetime

text \<open>The dataclass \<open>ROIMetrics\<close>.\<close>

record ROIMetrics =
  signal_id :: string
  symbol :: string
  direction :: string
  entry_price :: real
  stop_loss :: real
  tp1 :: real
  tp2 :: real
  tp3 :: real
  tp1_hit :: bool
  tp2_hit :: bool
  tp3_hit :: bool
  sl_hit :: bool
  current_roi :: real
  status :: string
  entry_time :: datetime
  close_time :: "datetime option"
  fills :: "fill list"
  quality_score :: real

text \<open>The dicts returned by \<open>_handle_tp_hit\<close> and \<open>_handle_sl_hit\<close>: type \<open>tp_hit\<close> with
  signal id, level, price and weighted profit; type \<open>sl_hit\<close> with signal id, price and
  weighted loss; type \<open>error\<close> with signal id and reason.\<close>

datatype event =
  Tp_hit_event string string real real
| Sl_hit_event string real real
| Error_event string string

subsection \<open>The database and the log, as the tracker sees them\<close>

text \<open>
  One connection attempt (connect, execute, commit) ends in one of four ways: it commits,
  it raises \<open>aiosqlite.OperationalError\<close> with a message containing
  \<open>database is locked\<close>, it raises another \<open>OperationalError\<close>, or it raises another
  \<open>Exception\<close>. The world carries the outcomes of the attempts to come (an exhausted
  script commits), the statements committed so far with their bound parameters, the
  arguments of the \<open>asyncio.sleep\<close> calls and the warnings and errors the persistence
  functions logged. Informational log lines and Telegram notifications, which are sent
  inside a \<open>try\<close> that catches every \<open>Exception\<close>, do not act on the tracker and are
  left out.
\<close>

datatype db_outcome = Commit | Locked | Operational_error | Other_exception

datatype db_key = By_signal_id string | By_symbol_timestamp string datetime

datatype db_stmt =
  Insert_row "string option" string string real real real real real string datetime
| Update_final db_key string real "datetime option"
| Update_progress db_key real bool bool bool bool

datatype log_entry =
  Warning_locked nat nat real
| Error_update
| Error_save

record world =
  db_script :: "db_outcome list"
  db_committed :: "db_stmt list"
  slept :: "real list"
  logged :: "log_entry list"

subsection \<open>The tracker object\<close>

text \<open>
  \<open>active_signals\<close> and \<open>completed_signals\<close> hold references to \<open>ROIMetrics\<close> objects,
  which the methods mutate in place; \<open>update_signal_price\<close> keeps writing to an object
  after \<open>_close_signal\<close> has moved it to the archive. The objects therefore live in a
  store indexed by references, and \<open>next_ref\<close> is the reference the next constructor call
  returns.
\<close>

type_synonym ref = nat

record ROITracker =
  active_signals :: "string \<rightharpoonup> ref"
  completed_signals :: "ref list"
  objects :: "ref \<Rightarrow> ROIMetrics"
  next_ref :: ref
  tp1_percentage :: real
  tp2_percentage :: real
  tp3_percentage :: real

definition unallocated :: ROIMetrics where
  "unallocated = \<lparr>signal_id = [], symbol = [], direction = [], entry_price = 0,
     stop_loss = 0, tp1 = 0, tp2 = 0, tp3 = 0, tp1_hit = False, tp2_hit = False,
     tp3_hit = False, sl_hit = False, current_roi = 0, status = [], entry_time = 0,
     close_time = None, fills = [], quality_score = 0\<rparr>"

text \<open>\<open>ROITracker.__init__\<close>.\<close>

definition init :: ROITracker where
  "init = \<lparr>active_signals = Map.empty, completed_signals = [],
     objects = (\<lambda>_. unallocated), next_ref = 0,
     tp1_percentage = 0.25, tp2_percentage = 0.50, tp3_percentage = 0.25\<rparr>"

definition set_object :: "ROITracker \<Rightarrow> ref \<Rightarrow> ROIMetrics \<Rightarrow> ROITracker" where
  "set_object tr r m = tr\<lparr>objects := (objects tr)(r := m)\<rparr>"

subsection \<open>Persistence\<close>

definition insert_stmt :: "variant \<Rightarrow> ROIMetrics \<Rightarrow> db_stmt" where
  "insert_stmt v m =
     Insert_row (if v = Telegram_bot then None else Some (signal_id m))
       (symbol m) (direction m) (entry_price m) (stop_loss m) (tp1 m) (tp2 m) (tp3 m)
       (status m) (entry_time m)"

definition row_key :: "variant \<Rightarrow> ROIMetrics \<Rightarrow> db_key" where
  "row_key v m =
     (if v = Telegram_bot then By_symbol_timestamp (symbol m) (entry_time m)
      else By_signal_id (signal_id m))"

definition update_stmt :: "variant \<Rightarrow> ROIMetrics \<Rightarrow> bool \<Rightarrow> db_stmt" where
  "update_stmt v m final =
     (if final then Update_final (row_key v m) (status m) (current_roi m) (close_time m)
      else Update_progress (row_key v m) (current_roi m)
             (tp1_hit m) (tp2_hit m) (tp3_hit m) (sl_hit m))"

text \<open>\<open>_save_signal_to_db\<close>: one attempt; any exception is logged and swallowed.\<close>

definition save_signal_to_db :: "variant \<Rightarrow> ROIMetrics \<Rightarrow> world \<Rightarrow> world" where
  "save_signal_to_db v m w =
     (case db_script w of
        [] \<Rightarrow> w\<lparr>db_committed := db_committed w @ [insert_stmt v m]\<rparr>
      | Commit # rest \<Rightarrow>
          w\<lparr>db_script := rest, db_committed := db_committed w @ [insert_stmt v m]\<rparr>
      | _ # rest \<Rightarrow> w\<lparr>db_script := rest, logged := logged w @ [Error_save]\<rparr>)"

text \<open>
  The body of \<open>for attempt in range(max_retries)\<close> in the \<open>telegram_bot\<close> copy of
  \<open>_update_signal_in_db\<close>, over the attempts still to run. A commit returns; a locked
  database with \<open>attempt < max_retries - 1\<close> sleeps \<open>retry_delay * 2 ** attempt\<close>, logs a
  warning and continues; everything else logs an error and breaks.
\<close>

fun update_attempts :: "nat \<Rightarrow> real \<Rightarrow> nat list \<Rightarrow> db_stmt \<Rightarrow> world \<Rightarrow> world" where
  "update_attempts max_retries retry_delay [] stmt w = w"
| "update_attempts max_retries retry_delay (attempt # rest) stmt w =
     (case db_script w of
        [] \<Rightarrow> w\<lparr>db_committed := db_committed w @ [stmt]\<rparr>
      | Commit # script \<Rightarrow>
          w\<lparr>db_script := script, db_committed := db_committed w @ [stmt]\<rparr>
      | Locked # script \<Rightarrow>
          (if attempt < max_retries - 1
           then update_attempts max_retries retry_delay rest stmt
                  (w\<lparr>db_script := script,
                     slept := slept w @ [retry_delay * 2 ^ attempt],
                     logged := logged w @
                       [Warning_locked (attempt + 1) max_retries (retry_delay * 2 ^ attempt)]\<rparr>)
           else w\<lparr>db_script := script, logged := logged w @ [Error_update]\<rparr>)
      | _ # script \<Rightarrow> w\<lparr>db_script := script, logged := logged w @ [Error_update]\<rparr>)"

text \<open>\<open>_update_signal_in_db\<close>: the retry loop with \<open>max_retries = 10\<close> and
  \<open>retry_delay = 0.2\<close> in the \<open>telegram_bot\<close> copy, one attempt inside
  \<open>try ... except Exception\<close> in the \<open>trading\<close> copy.\<close>

definition update_signal_in_db :: "variant \<Rightarrow> ROIMetrics \<Rightarrow> bool \<Rightarrow> world \<Rightarrow> world" where
  "update_signal_in_db v m final w =
     (if v = Telegram_bot
      then update_attempts 10 0.2 [0..<10] (update_stmt v m final) w
      else (case db_script w of
              [] \<Rightarrow> w\<lparr>db_committed := db_committed w @ [update_stmt v m final]\<rparr>
            | Commit # script \<Rightarrow>
                w\<lparr>db_script := script,
                  db_committed := db_committed w @ [update_stmt v m final]\<rparr>
            | _ # script \<Rightarrow> w\<lparr>db_script := script, logged := logged w @ [Error_update]\<rparr>))"

subsection \<open>Return accounting\<close>

definition closed_percent :: "ROITracker \<Rightarrow> ROIMetrics \<Rightarrow> real" where
  "closed_percent tr m =
     (if tp1_hit m then tp1_percentage tr else 0)
     + (if tp2_hit m then tp2_percentage tr else 0)
     + (if tp3_hit m then tp3_percentage tr else 0)"

text \<open>The direction-aware percentage change from entry, before the factor 100.\<close>

definition change_ratio :: "ROIMetrics \<Rightarrow> real \<Rightarrow> py_error + real" where
  "change_ratio m p =
     (if direction m = ''long'' then py_div (p - entry_price m) (entry_price m)
      else py_div (entry_price m - p) (entry_price m))"

text \<open>\<open>_calculate_current_roi\<close>; only the \<open>telegram_bot\<close> copy tests
  \<open>entry_price == 0\<close>.\<close>

definition calculate_current_roi ::
  "variant \<Rightarrow> ROITracker \<Rightarrow> ROIMetrics \<Rightarrow> real \<Rightarrow> py_error + real" where
  "calculate_current_roi v tr m current_price =
     (let closed_roi = sum_list (map weighted_profit (fills m));
          remaining_percent = 1 - closed_percent tr m
      in if remaining_percent > 0
         then (if v = Telegram_bot \<and> entry_price m = 0 then Inr closed_roi
               else (case change_ratio m current_price of
                       Inl e \<Rightarrow> Inl e
                     | Inr q \<Rightarrow> Inr (closed_roi + q * 100 * remaining_percent)))
         else Inr (closed_roi + 0))"

subsection \<open>Closing a signal and the two handlers\<close>

text \<open>\<open>_close_signal\<close>. The \<open>del\<close> raises \<open>KeyError\<close> when the object's own
  \<open>signal_id\<close> is not a key of \<open>active_signals\<close>; the writes before it stay.\<close>

definition close_signal ::
  "variant \<Rightarrow> ROITracker \<Rightarrow> world \<Rightarrow> datetime \<Rightarrow> ref \<Rightarrow> string
     \<Rightarrow> (ROITracker \<times> world) \<times> (py_error + unit)" where
  "close_signal v tr w now r st =
     (let m = (objects tr r)\<lparr>status := st, close_time := Some now\<rparr>;
          final_roi = sum_list (map weighted_profit (fills m));
          m' = m\<lparr>current_roi := final_roi\<rparr>;
          tr1 = (set_object tr r m')\<lparr>completed_signals := completed_signals tr @ [r]\<rparr>
      in (case active_signals tr1 (signal_id m') of
            None \<Rightarrow> ((tr1, w), Inl KeyError)
          | Some _ \<Rightarrow>
              ((tr1\<lparr>active_signals := (active_signals tr1)(signal_id m' := None)\<rparr>,
                update_signal_in_db v m' True w), Inr ())))"

text \<open>\<open>_handle_tp_hit\<close>. The caller has set the hit flag on the object already.\<close>

definition handle_tp_hit ::
  "variant \<Rightarrow> ROITracker \<Rightarrow> world \<Rightarrow> datetime \<Rightarrow> ref \<Rightarrow> string \<Rightarrow> real
     \<Rightarrow> (ROITracker \<times> world) \<times> (py_error + event)" where
  "handle_tp_hit v tr w now r tp_level p =
     (let m = objects tr r;
          close_percent =
            (if tp_level = ''tp1'' then tp1_percentage tr
             else if tp_level = ''tp2'' then tp2_percentage tr
             else tp3_percentage tr)
      in if v = Telegram_bot \<and> entry_price m = 0
         then ((tr, w), Inr (Error_event (signal_id m) ''entry_price_zero''))
         else (case change_ratio m p of
                 Inl e \<Rightarrow> ((tr, w), Inl e)
               | Inr q \<Rightarrow>
                   (let profit = q * 100;
                        weighted = profit * close_percent;
                        f = \<lparr>level = tp_level, price = p, percentage = close_percent,
                             profit_percent = profit, weighted_profit = weighted,
                             timestamp = now\<rparr>;
                        tr1 = set_object tr r (m\<lparr>fills := fills m @ [f]\<rparr>)
                    in if tp_level = ''tp3'' \<or> (tp1_hit m \<and> tp2_hit m \<and> tp3_hit m)
                       then (case close_signal v tr1 w now r ''completed'' of
                               (s, Inl e) \<Rightarrow> (s, Inl e)
                             | ((tr2, w2), Inr _) \<Rightarrow>
                                 ((tr2, w2),
                                  Inr (Tp_hit_event (signal_id (objects tr2 r)) tp_level p
                                         weighted)))
                       else ((tr1, w),
                             Inr (Tp_hit_event (signal_id m) tp_level p weighted)))))"

text \<open>\<open>_handle_sl_hit\<close>.\<close>

definition handle_sl_hit ::
  "variant \<Rightarrow> ROITracker \<Rightarrow> world \<Rightarrow> datetime \<Rightarrow> ref \<Rightarrow> real
     \<Rightarrow> (ROITracker \<times> world) \<times> (py_error + event)" where
  "handle_sl_hit v tr w now r p =
     (let m = objects tr r
      in if v = Telegram_bot \<and> entry_price m = 0
         then ((tr, w), Inr (Error_event (signal_id m) ''entry_price_zero''))
         else (case change_ratio m p of
                 Inl e \<Rightarrow> ((tr, w), Inl e)
               | Inr q \<Rightarrow>
                   (let loss = q * 100;
                        remaining_percent = 1 - closed_percent tr m;
                        weighted = loss * remaining_percent;
                        f = \<lparr>level = ''stop_loss'', price = p,
                             percentage = remaining_percent, profit_percent = loss,
                             weighted_profit = weighted, timestamp = now\<rparr>;
                        tr1 = set_object tr r (m\<lparr>fills := fills m @ [f]\<rparr>)
                    in (case close_signal v tr1 w now r ''stopped'' of
                          (s, Inl e) \<Rightarrow> (s, Inl e)
                        | ((tr2, w2), Inr _) \<Rightarrow>
                            ((tr2, w2),
                             Inr (Sl_hit_event (signal_id (objects tr2 r)) p weighted))))))"

subsection \<open>The price update\<close>

text \<open>The \<open>if/elif\<close> chain of \<open>update_signal_price\<close>: the first branch whose flag is
  unset and whose price test holds sets the flag and calls its handler.\<close>

definition check_levels ::
  "variant \<Rightarrow> ROITracker \<Rightarrow> world \<Rightarrow> datetime \<Rightarrow> ref \<Rightarrow> real
     \<Rightarrow> (ROITracker \<times> world) \<times> (py_error + event option)" where
  "check_levels v tr w now r p =
     (let m = objects tr r;
          some = (\<lambda>(s, x). (s, map_sum id Some x))
      in if direction m = ''long''
         then (if \<not> tp3_hit m \<and> p \<ge> tp3 m
               then some (handle_tp_hit v (set_object tr r (m\<lparr>tp3_hit := True\<rparr>)) w now r
                            ''tp3'' p)
               else if \<not> tp2_hit m \<and> p \<ge> tp2 m
               then some (handle_tp_hit v (set_object tr r (m\<lparr>tp2_hit := True\<rparr>)) w now r
                            ''tp2'' p)
               else if \<not> tp1_hit m \<and> p \<ge> tp1 m
               then some (handle_tp_hit v (set_object tr r (m\<lparr>tp1_hit := True\<rparr>)) w now r
                            ''tp1'' p)
               else if \<not> sl_hit m \<and> p \<le> stop_loss m
               then some (handle_sl_hit v (set_object tr r (m\<lparr>sl_hit := True\<rparr>)) w now r p)
               else ((tr, w), Inr None))
         else if direction m = ''short''
         then (if \<not> tp3_hit m \<and> p \<le> tp3 m
               then some (handle_tp_hit v (set_object tr r (m\<lparr>tp3_hit := True\<rparr>)) w now r
                            ''tp3'' p)
               else if \<not> tp2_hit m \<and> p \<le> tp2 m
               then some (handle_tp_hit v (set_object tr r (m\<lparr>tp2_hit := True\<rparr>)) w now r
                            ''tp2'' p)
               else if \<not> tp1_hit m \<and> p \<le> tp1 m
               then some (handle_tp_hit v (set_object tr r (m\<lparr>tp1_hit := True\<rparr>)) w now r
                            ''tp1'' p)
               else if \<not> sl_hit m \<and> p \<ge> stop_loss m
               then some (handle_sl_hit v (set_object tr r (m\<lparr>sl_hit := True\<rparr>)) w now r p)
               else ((tr, w), Inr None))
         else ((tr, w), Inr None))"

text \<open>\<open>update_signal_price\<close>: look the signal up, run the chain, then recompute
  \<open>current_roi\<close> on the same object (wherever it now lives) and write it to the
  database.\<close>

definition update_signal_price ::
  "variant \<Rightarrow> ROITracker \<Rightarrow> world \<Rightarrow> datetime \<Rightarrow> string \<Rightarrow> real
     \<Rightarrow> (ROITracker \<times> world) \<times> (py_error + event option)" where
  "update_signal_price v tr w now sid current_price =
     (case active_signals tr sid of
        None \<Rightarrow> ((tr, w), Inr None)
      | Some r \<Rightarrow>
          (case check_levels v tr w now r current_price of
             (s, Inl e) \<Rightarrow> (s, Inl e)
           | ((tr1, w1), Inr ev) \<Rightarrow>
               (case calculate_current_roi v tr1 (objects tr1 r) current_price of
                  Inl e \<Rightarrow> ((tr1, w1), Inl e)
                | Inr roi \<Rightarrow>
                    (let m2 = (objects tr1 r)\<lparr>current_roi := roi\<rparr>
                     in ((set_object tr1 r m2, update_signal_in_db v m2 False w1),
                         Inr ev)))))"

subsection \<open>Registration\<close>

text \<open>
  The dict handed to \<open>register_signal\<close>, one optional entry per key the method reads. The
  keys read with \<open>signal[...]\<close> raise \<open>KeyError\<close> when absent, the keys read with
  \<open>signal.get(..., 0)\<close> default to 0. Values are taken at the types the \<open>ROIMetrics\<close>
  annotations name.
\<close>

record signal_dict =
  sig_symbol :: "string option"
  sig_direction :: "string option"
  sig_entry_price :: "real option"
  sig_stop_loss :: "real option"
  sig_tp1 :: "real option"
  sig_tp2 :: "real option"
  sig_tp3 :: "real option"
  sig_quality_score :: "real option"

text \<open>Python's \<open>str\<close> of an integer, for the f-string that builds the signal id.\<close>

function str_nat :: "nat \<Rightarrow> string" where
  "str_nat n =
     (if n < 10 then [''0123456789'' ! n]
      else str_nat (n div 10) @ [''0123456789'' ! (n mod 10)])"
  by pat_completeness auto
termination
  by (relation "measure id") auto

declare str_nat.simps [simp del]

definition str_int :: "int \<Rightarrow> string" where
  "str_int i = (if i < 0 then CHR ''-'' # str_nat (nat (- i)) else str_nat (nat i))"

definition get_or_zero :: "real option \<Rightarrow> real" where
  "get_or_zero x = (case x of None \<Rightarrow> 0 | Some y \<Rightarrow> y)"

text \<open>\<open>register_signal\<close>, the same in both copies. \<open>ts\<close> is
  \<open>int(datetime.now().timestamp())\<close> and \<open>now\<close> the clock reading behind the default
  \<open>entry_time\<close>. There is no test of the prices before the signal is stored.\<close>

definition register_signal ::
  "variant \<Rightarrow> ROITracker \<Rightarrow> world \<Rightarrow> int \<Rightarrow> datetime \<Rightarrow> signal_dict
     \<Rightarrow> (ROITracker \<times> world) \<times> (py_error + string)" where
  "register_signal v tr w ts now d =
     (case sig_symbol d of
        None \<Rightarrow> ((tr, w), Inl KeyError)
      | Some smb \<Rightarrow>
     (case sig_direction d of
        None \<Rightarrow> ((tr, w), Inl KeyError)
      | Some dir \<Rightarrow>
     (case sig_entry_price d of
        None \<Rightarrow> ((tr, w), Inl KeyError)
      | Some entry \<Rightarrow>
     (case sig_stop_loss d of
        None \<Rightarrow> ((tr, w), Inl KeyError)
      | Some sl \<Rightarrow>
          (let sid = smb @ ''_'' @ str_int ts;
               metrics = \<lparr>signal_id = sid, symbol = smb, direction = dir,
                 entry_price = entry, stop_loss = sl,
                 tp1 = get_or_zero (sig_tp1 d), tp2 = get_or_zero (sig_tp2 d),
                 tp3 = get_or_zero (sig_tp3 d),
                 tp1_hit = False, tp2_hit = False, tp3_hit = False, sl_hit = False,
                 current_roi = 0, status = ''active'', entry_time = now,
                 close_time = None, fills = [],
                 quality_score = get_or_zero (sig_quality_score d)\<rparr>;
               r = next_ref tr;
               tr1 = (set_object tr r metrics)\<lparr>next_ref := Suc r,
                 active_signals := (active_signals tr)(sid \<mapsto> r)\<rparr>
           in ((tr1, save_signal_to_db v metrics w), Inr sid))))))"

subsection \<open>Statistics\<close>





subsection \<open>Feeding a price path\<close>

text \<open>
  A driver that calls \<open>update_signal_price\<close> once per tick, each tick a clock reading and
  a price, and collects what the calls return. Like \<open>_monitor_signal\<close> it goes on to the
  next tick after an exception.
\<close>

fun feed ::
  "variant \<Rightarrow> ROITracker \<Rightarrow> world \<Rightarrow> string \<Rightarrow> (datetime \<times> real) list
     \<Rightarrow> (ROITracker \<times> world) \<times> (py_error + event option) list" where
  "feed v tr w sid [] = ((tr, w), [])"
| "feed v tr w sid ((now, p) # ticks) =
     (case update_signal_price v tr w now sid p of
        ((tr1, w1), res) \<Rightarrow>
          (case feed v tr1 w1 sid ticks of (s, rs) \<Rightarrow> (s, res # rs)))"

text \<open>The events among the results, in the order they fired.\<close>

fun fired :: "(py_error + event option) list \<Rightarrow> event list" where
  "fired [] = []"
| "fired (Inr (Some e) # rs) = e # fired rs"
| "fired (_ # rs) = fired rs"

subsection \<open>The threshold evaluator of the specification\<close>

text \<open>
  The evaluator as the specification words it, for comparison with the code: for LONG,
  TP3 if \<open>tp3\<close> is not hit and the price is at least \<open>tp3\<close>, else TP2, else TP1, else
  STOP if the stop is not hit and the price is at most \<open>stop_loss\<close>; mirrored for SHORT.
  Levels carry the names the code uses.
\<close>

definition evaluate :: "ROIMetrics \<Rightarrow> real \<Rightarrow> string option" where
  "evaluate m p =
     (if direction m = ''long''
      then (if \<not> tp3_hit m \<and> p \<ge> tp3 m then Some ''tp3''
            else if \<not> tp2_hit m \<and> p \<ge> tp2 m then Some ''tp2''
            else if \<not> tp1_hit m \<and> p \<ge> tp1 m then Some ''tp1''
            else if \<not> sl_hit m \<and> p \<le> stop_loss m then Some ''stop_loss''
            else None)
      else if direction m = ''short''
      then (if \<not> tp3_hit m \<and> p \<le> tp3 m then Some ''tp3''
            else if \<not> tp2_hit m \<and> p \<le> tp2 m then Some ''tp2''
            else if \<not> tp1_hit m \<and> p \<le> tp1 m then Some ''tp1''
            else if \<not> sl_hit m \<and> p \<ge> stop_loss m then Some ''stop_loss''
            else None)
      else None)"

text \<open>The level a returned dict reports: the \<open>level\<close> entry of a \<open>tp_hit\<close>, the stop
  for an \<open>sl_hit\<close>, none for an \<open>error\<close> dict.\<close>

fun event_level :: "event \<Rightarrow> string option" where
  "event_level (Tp_hit_event _ l _ _) = Some l"
| "event_level (Sl_hit_event _ _ _) = Some ''stop_loss''"
| "event_level (Error_event _ _) = None"

subsection \<open>The registration invariant of the specification\<close>

text \<open>
  The validity the specification asks \<open>register\<close> to check, in its words: all prices
  strictly positive and, for LONG, \<open>stop_loss < entry_price < tp1 < tp2 < tp3\<close>, with
  the inequalities reversed for SHORT.
\<close>

definition spec_valid_signal :: "signal_dict \<Rightarrow> bool" where
  "spec_valid_signal d \<longleftrightarrow>
     (case (sig_direction d, sig_entry_price d, sig_stop_loss d, sig_tp1 d, sig_tp2 d, sig_tp3 d) of
        (Some dir, Some e, Some sl, Some t1, Some t2, Some t3) \<Rightarrow>
          0 < e \<and> 0 < sl \<and> 0 < t1 \<and> 0 < t2 \<and> 0 < t3
          \<and> (if dir = ''long'' then sl < e \<and> e < t1 \<and> t1 < t2 \<and> t2 < t3
               else dir = ''short'' \<and> t3 < t2 \<and> t2 < t1 \<and> t1 < e \<and> e < sl)
      | _ \<Rightarrow> False)"

subsection \<open>The window of the statistics\<close>



subsection \<open>One step of the chain, in closed form\<close>

text \<open>
  The functions below name what one call of \<open>update_signal_price\<close> does to the object
  once the level is known: the flag it sets, the fill it appends, whether it closes the
  signal, and the value \<open>current_roi\<close> takes. The lemmas of the next section show that
  the code computes exactly these.
\<close>

definition set_flag :: "string \<Rightarrow> ROIMetrics \<Rightarrow> ROIMetrics" where
  "set_flag l m =
     (if l = ''tp3'' then m\<lparr>tp3_hit := True\<rparr>
      else if l = ''tp2'' then m\<lparr>tp2_hit := True\<rparr>
      else if l = ''tp1'' then m\<lparr>tp1_hit := True\<rparr>
      else m\<lparr>sl_hit := True\<rparr>)"

definition run_handler ::
  "variant \<Rightarrow> ROITracker \<Rightarrow> world \<Rightarrow> datetime \<Rightarrow> ref \<Rightarrow> string \<Rightarrow> real
     \<Rightarrow> (ROITracker \<times> world) \<times> (py_error + event)" where
  "run_handler v tr w now r l p =
     (if l = ''stop_loss''
      then handle_sl_hit v (set_object tr r (set_flag l (objects tr r))) w now r p
      else handle_tp_hit v (set_object tr r (set_flag l (objects tr r))) w now r l p)"

definition is_level :: "string \<Rightarrow> bool" where
  "is_level l \<longleftrightarrow> l = ''tp3'' \<or> l = ''tp2'' \<or> l = ''tp1'' \<or> l = ''stop_loss''"

definition gain :: "ROIMetrics \<Rightarrow> real \<Rightarrow> real" where
  "gain m p =
     (if direction m = ''long'' then (p - entry_price m) / entry_price m
      else (entry_price m - p) / entry_price m) * 100"

definition level_percent :: "ROITracker \<Rightarrow> ROIMetrics \<Rightarrow> string \<Rightarrow> real" where
  "level_percent tr m l =
     (if l = ''stop_loss'' then 1 - closed_percent tr m
      else if l = ''tp1'' then tp1_percentage tr
      else if l = ''tp2'' then tp2_percentage tr
      else tp3_percentage tr)"

definition new_fill :: "ROITracker \<Rightarrow> ROIMetrics \<Rightarrow> string \<Rightarrow> real \<Rightarrow> datetime \<Rightarrow> fill" where
  "new_fill tr m l p now =
     \<lparr>level = l, price = p, percentage = level_percent tr m l, profit_percent = gain m p,
      weighted_profit = gain m p * level_percent tr m l, timestamp = now\<rparr>"

definition filled :: "ROITracker \<Rightarrow> ROIMetrics \<Rightarrow> string \<Rightarrow> real \<Rightarrow> datetime \<Rightarrow> ROIMetrics" where
  "filled tr m l p now =
     (set_flag l m)\<lparr>fills := fills m @ [new_fill tr (set_flag l m) l p now]\<rparr>"

definition closing :: "ROIMetrics \<Rightarrow> string \<Rightarrow> bool" where
  "closing m l \<longleftrightarrow>
     l = ''stop_loss'' \<or> l = ''tp3'' \<or> (tp1_hit m \<and> tp2_hit m \<and> tp3_hit m)"

definition final_status :: "string \<Rightarrow> string" where
  "final_status l = (if l = ''stop_loss'' then ''stopped'' else ''completed'')"

definition closed_object :: "ROIMetrics \<Rightarrow> string \<Rightarrow> datetime \<Rightarrow> ROIMetrics" where
  "closed_object m st now =
     m\<lparr>status := st, close_time := Some now,
       current_roi := sum_list (map weighted_profit (fills m))\<rparr>"

definition threshold_event :: "ROITracker \<Rightarrow> ROIMetrics \<Rightarrow> string \<Rightarrow> real \<Rightarrow> event" where
  "threshold_event tr m l p =
     (if l = ''stop_loss''
      then Sl_hit_event (signal_id m) p (gain m p * level_percent tr m l)
      else Tp_hit_event (signal_id m) l p (gain m p * level_percent tr m l))"

definition roi_of :: "ROITracker \<Rightarrow> ROIMetrics \<Rightarrow> real \<Rightarrow> real" where
  "roi_of tr m p =
     sum_list (map weighted_profit (fills m))
     + (if 1 - closed_percent tr m > 0 then gain m p * (1 - closed_percent tr m) else 0)"

definition priced :: "ROITracker \<Rightarrow> ROIMetrics \<Rightarrow> real \<Rightarrow> ROIMetrics" where
  "priced tr m p = m\<lparr>current_roi := roi_of tr m p\<rparr>"

subsection \<open>A LONG signal on a rising path\<close>

text \<open>
  \<open>long_state\<close> says that \<open>sid\<close> is the active LONG signal \<open>r\<close>, stored under its own
  id, with a non-zero entry price, the given stop and targets, the given TP1 and TP2 flags
  and TP3 not hit. \<open>long_trace\<close> lists the levels the chain selects for such a signal
  along a list of prices that stay above the stop.
\<close>

definition long_state ::
  "ROITracker \<Rightarrow> string \<Rightarrow> ref \<Rightarrow> real \<Rightarrow> real \<Rightarrow> real \<Rightarrow> real \<Rightarrow> bool \<Rightarrow> bool \<Rightarrow> bool" where
  "long_state tr sid r sl t1 t2 t3 h1 h2 \<longleftrightarrow>
     active_signals tr sid = Some r \<and> signal_id (objects tr r) = sid
     \<and> direction (objects tr r) = ''long'' \<and> entry_price (objects tr r) \<noteq> 0
     \<and> stop_loss (objects tr r) = sl \<and> tp1 (objects tr r) = t1
     \<and> tp2 (objects tr r) = t2 \<and> tp3 (objects tr r) = t3
     \<and> tp1_hit (objects tr r) = h1 \<and> tp2_hit (objects tr r) = h2
     \<and> \<not> tp3_hit (objects tr r)"

fun long_trace :: "real \<Rightarrow> real \<Rightarrow> real \<Rightarrow> bool \<Rightarrow> bool \<Rightarrow> real list \<Rightarrow> string list" where
  "long_trace t1 t2 t3 h1 h2 [] = []"
| "long_trace t1 t2 t3 h1 h2 (p # ps) =
     (if p \<ge> t3 then [''tp3'']
      else if \<not> h2 \<and> p \<ge> t2 then ''tp2'' # long_trace t1 t2 t3 h1 True ps
      else if \<not> h1 \<and> p \<ge> t1 then ''tp1'' # long_trace t1 t2 t3 True h2 ps
      else long_trace t1 t2 t3 h1 h2 ps)"

subsection \<open>Reachable trackers and their invariant\<close>

text \<open>
  \<open>filled_fraction\<close> is the sum of the \<open>percentage\<close> entries of a signal's fills. A
  tracker is reachable when calls of \<open>register_signal\<close> and \<open>update_signal_price\<close>, with
  any arguments, any clock and any database behaviour, lead to it from a new one; a call
  that raises counts with the state it leaves behind.
\<close>

definition filled_fraction :: "ROIMetrics \<Rightarrow> real" where
  "filled_fraction m = sum_list (map percentage (fills m))"

inductive reachable :: "variant \<Rightarrow> ROITracker \<Rightarrow> bool" for v :: variant where
  start: "reachable v init"
| register:
    "reachable v tr \<Longrightarrow> register_signal v tr w ts now d = ((tr', w'), res)
     \<Longrightarrow> reachable v tr'"
| update:
    "reachable v tr \<Longrightarrow> update_signal_price v tr w now sid p = ((tr', w'), res)
     \<Longrightarrow> reachable v tr'"

text \<open>
  The invariant of the reachable trackers: the allocations are those of \<open>__init__\<close>; an
  active signal is stored under its own id, has status \<open>active\<close>, was allocated before
  \<open>next_ref\<close> and is not in the archive, and unless its entry price is 0 its fills add up
  to the allocations of the targets hit; an archived signal with a non-zero entry price
  is \<open>stopped\<close> with fills adding up to 1, or \<open>completed\<close> with fills adding up to the
  allocations of the targets hit.
\<close>

definition tracker_inv :: "ROITracker \<Rightarrow> bool" where
  "tracker_inv tr \<longleftrightarrow>
     tp1_percentage tr = 0.25 \<and> tp2_percentage tr = 0.50 \<and> tp3_percentage tr = 0.25
     \<and> (\<forall>sid r. active_signals tr sid = Some r \<longrightarrow>
           signal_id (objects tr r) = sid \<and> status (objects tr r) = ''active''
           \<and> r < next_ref tr \<and> r \<notin> set (completed_signals tr)
           \<and> (entry_price (objects tr r) \<noteq> 0 \<longrightarrow>
                 filled_fraction (objects tr r) = closed_percent tr (objects tr r)))
     \<and> (\<forall>r \<in> set (completed_signals tr). r < next_ref tr
           \<and> (entry_price (objects tr r) \<noteq> 0 \<longrightarrow>
                 (status (objects tr r) = ''stopped'' \<and> filled_fraction (objects tr r) = 1)
               \<or> (status (objects tr r) = ''completed''
                    \<and> filled_fraction (objects tr r) = closed_percent tr (objects tr r))))"

text \<open>What a call can do to the tracker: it rewrites the one object, and either leaves
  the two containers alone or moves the reference from the active map to the archive.\<close>

definition same_config :: "ROITracker \<Rightarrow> ROITracker \<Rightarrow> bool" where
  "same_config tr tr' \<longleftrightarrow>
     next_ref tr' = next_ref tr \<and> tp1_percentage tr' = tp1_percentage tr
     \<and> tp2_percentage tr' = tp2_percentage tr \<and> tp3_percentage tr' = tp3_percentage tr"

definition stays_open :: "ROITracker \<Rightarrow> ref \<Rightarrow> ROITracker \<Rightarrow> bool" where
  "stays_open tr r tr' \<longleftrightarrow>
     same_config tr tr'
     \<and> active_signals tr' = active_signals tr
     \<and> completed_signals tr' = completed_signals tr
     \<and> (\<exists>m'. objects tr' = (objects tr)(r := m')
            \<and> signal_id m' = signal_id (objects tr r)
            \<and> entry_price m' = entry_price (objects tr r)
            \<and> status m' = status (objects tr r)
            \<and> (entry_price m' \<noteq> 0 \<longrightarrow>
                  filled_fraction m' - closed_percent tr m'
                  = filled_fraction (objects tr r) - closed_percent tr (objects tr r)))"

definition gets_closed :: "ROITracker \<Rightarrow> ref \<Rightarrow> ROITracker \<Rightarrow> bool" where
  "gets_closed tr r tr' \<longleftrightarrow>
     same_config tr tr'
     \<and> active_signals tr' = (active_signals tr)(signal_id (objects tr r) := None)
     \<and> completed_signals tr' = completed_signals tr @ [r]
     \<and> entry_price (objects tr r) \<noteq> 0
     \<and> (\<exists>m'. objects tr' = (objects tr)(r := m')
            \<and> entry_price m' = entry_price (objects tr r)
            \<and> ((status m' = ''stopped''
                   \<and> filled_fraction m'
                     = filled_fraction (objects tr r) + 1 - closed_percent tr (objects tr r))
                \<or> (status m' = ''completed''
                   \<and> filled_fraction m' - closed_percent tr m'
                     = filled_fraction (objects tr r) - closed_percent tr (objects tr r))))"

subsection \<open>Concrete inputs\<close>

text \<open>A world whose database commits every statement, and a LONG signal with entry 100,
  stop 90 and targets 110, 120 and 130.\<close>

definition quiet :: world where
  "quiet = \<lparr>db_script = [], db_committed = [], slept = [], logged = []\<rparr>"

definition example_long :: ROIMetrics where
  "example_long = \<lparr>signal_id = ''BTC_7'', symbol = ''BTC'', direction = ''long'',
     entry_price = 100, stop_loss = 90, tp1 = 110, tp2 = 120, tp3 = 130,
     tp1_hit = False, tp2_hit = False, tp3_hit = False, sl_hit = False,
     current_roi = 0, status = ''active'', entry_time = 0, close_time = None,
     fills = [], quality_score = 0\<rparr>"

text \<open>The same signal with \<open>entry_price = 0\<close>, which \<open>register_signal\<close> accepts.\<close>

definition zero_entry :: ROIMetrics where
  "zero_entry = example_long\<lparr>entry_price := 0\<rparr>"

text \<open>A tracker that holds \<open>example_long\<close> as its one active signal.\<close>

definition one_signal :: ROITracker where
  "one_signal = (set_object init 0 example_long)\<lparr>next_ref := 1,
     active_signals := [''BTC_7'' \<mapsto> 0]\<rparr>"

text \<open>The same tracker with \<open>zero_entry\<close> in the place of \<open>example_long\<close>.\<close>

definition one_zero_signal :: ROITracker where
  "one_zero_signal = set_object one_signal 0 zero_entry"

text \<open>A LONG definition whose prices are out of order and partly negative.\<close>

definition invalid_long :: signal_dict where
  "invalid_long = \<lparr>sig_symbol = Some ''BTC'', sig_direction = Some ''long'',
     sig_entry_price = Some 100, sig_stop_loss = Some 200, sig_tp1 = Some 50,
     sig_tp2 = Some 40, sig_tp3 = Some (- 5), sig_quality_score = None\<rparr>"

definition registered_invalid :: "(ROITracker \<times> world) \<times> (py_error + string)" where
  "registered_invalid = register_signal Telegram_bot init quiet 7 0 invalid_long"

text \<open>The one signal of \<open>one_signal\<close>, updated with a price below its stop.\<close>

definition stopped_out :: "(ROITracker \<times> world) \<times> (py_error + event option)" where
  "stopped_out = update_signal_price Telegram_bot one_signal quiet 5 ''BTC_7'' 85"

text \<open>A LONG definition without target levels, registered and updated with price 5; and
  the same with entry price 0.\<close>

definition no_targets :: signal_dict where
  "no_targets = \<lparr>sig_symbol = Some ''BTC'', sig_direction = Some ''long'',
     sig_entry_price = Some 100, sig_stop_loss = Some 90, sig_tp1 = None,
     sig_tp2 = None, sig_tp3 = None, sig_quality_score = None\<rparr>"

definition no_targets_zero :: signal_dict where
  "no_targets_zero = no_targets\<lparr>sig_entry_price := Some 0\<rparr>"

definition registered_zero :: "(ROITracker \<times> world) \<times> (py_error + string)" where
  "registered_zero = register_signal Telegram_bot init quiet 7 0 no_targets_zero"

definition zero_updated :: "(ROITracker \<times> world) \<times> (py_error + event option)" where
  "zero_updated = update_signal_price Telegram_bot (fst (fst registered_zero))
     (snd (fst registered_zero)) 1 ''BTC_7'' 5"

definition registered_no_targets :: "(ROITracker \<times> world) \<times> (py_error + string)" where
  "registered_no_targets = register_signal Trading init quiet 7 0 no_targets"

definition no_targets_updated :: "(ROITracker \<times> world) \<times> (py_error + event option)" where
  "no_targets_updated = update_signal_price Trading (fst (fst registered_no_targets))
     (snd (fst registered_no_targets)) 1 (''BTC'' @ ''_'' @ str_int 7) 5"


text \<open>Two rising paths for \<open>one_signal\<close>: one that jumps from the entry past \<open>tp3\<close>, one
  with a tick between each pair of targets.\<close>

definition jump_path :: "(datetime \<times> real) list" where
  "jump_path = [(1, 100), (2, 135)]"

definition band_path :: "(datetime \<times> real) list" where
  "band_path = [(1, 100), (2, 115), (3, 125), (4, 135)]"

text \<open>A well-ordered LONG definition, registered with a new tracker, and the two trackers
  reached by one update: with price 135, above \<open>tp3\<close>, and with price 85, below the
  stop.\<close>

definition valid_long :: signal_dict where
  "valid_long = \<lparr>sig_symbol = Some ''BTC'', sig_direction = Some ''long'',
     sig_entry_price = Some 100, sig_stop_loss = Some 90, sig_tp1 = Some 110,
     sig_tp2 = Some 120, sig_tp3 = Some 130, sig_quality_score = None\<rparr>"

definition registered_valid :: "(ROITracker \<times> world) \<times> (py_error + string)" where
  "registered_valid = register_signal Telegram_bot init quiet 7 0 valid_long"

definition jumped :: "(ROITracker \<times> world) \<times> (py_error + event option)" where
  "jumped = update_signal_price Telegram_bot (fst (fst registered_valid))
     (snd (fst registered_valid)) 1 ''BTC_7'' 135"

definition dropped :: "(ROITracker \<times> world) \<times> (py_error + event option)" where
  "dropped = update_signal_price Telegram_bot (fst (fst registered_valid))
     (snd (fst registered_valid)) 1 ''BTC_7'' 85"

text \<open>The one signal of \<open>one_zero_signal\<close>, updated with a price below its stop, and a
  path that stays below the stop.\<close>

definition stop_path :: "(datetime \<times> real) list" where
  "stop_path = [(1, 85), (2, 85), (3, 80)]"

definition zero_stopped :: "(ROITracker \<times> world) \<times> (py_error + event option)" where
  "zero_stopped = update_signal_price Telegram_bot one_zero_signal quiet 1 ''BTC_7'' 85"

section \<open>Properties\<close>

subsection \<open>What one price update computes\<close>

lemma evaluate_is_level: "evaluate m p = Some l \<Longrightarrow> is_level l"
  by (auto simp: evaluate_def is_level_def split: if_splits)

lemma check_levels_evaluate:
  "check_levels v tr w now r p =
     (case evaluate (objects tr r) p of
        None \<Rightarrow> ((tr, w), Inr None)
      | Some l \<Rightarrow> (case run_handler v tr w now r l p of (s, x) \<Rightarrow> (s, map_sum id Some x)))"
  by (simp add: check_levels_def evaluate_def run_handler_def set_flag_def Let_def)

lemmas handler_defs = run_handler_def handle_tp_hit_def handle_sl_hit_def close_signal_def
  set_object_def change_ratio_def py_div_def Let_def

lemmas step_defs = set_flag_def filled_def new_fill_def level_percent_def gain_def
  closing_def final_status_def closed_object_def threshold_event_def closed_percent_def

lemma run_handler_zero_telegram:
  "entry_price (objects tr r) = 0 \<Longrightarrow>
   run_handler Telegram_bot tr w now r l p =
     ((set_object tr r (set_flag l (objects tr r)), w),
      Inr (Error_event (signal_id (objects tr r)) ''entry_price_zero''))"
  by (simp add: handler_defs set_flag_def)

lemma run_handler_zero_trading:
  "entry_price (objects tr r) = 0 \<Longrightarrow>
   run_handler Trading tr w now r l p =
     ((set_object tr r (set_flag l (objects tr r)), w), Inl ZeroDivisionError)"
  by (simp add: handler_defs set_flag_def)

lemma run_handler_open:
  assumes "entry_price (objects tr r) \<noteq> 0" and "is_level l"
    and "\<not> closing (set_flag l (objects tr r)) l"
  shows "run_handler v tr w now r l p =
     ((set_object tr r (filled tr (objects tr r) l p now), w),
      Inr (threshold_event tr (objects tr r) l p))"
  using assms unfolding is_level_def
  by (elim disjE; auto simp: handler_defs step_defs)

lemma run_handler_close:
  assumes "entry_price (objects tr r) \<noteq> 0" and "is_level l"
    and "closing (set_flag l (objects tr r)) l"
    and "active_signals tr (signal_id (objects tr r)) = Some x"
  shows "run_handler v tr w now r l p =
     ((tr\<lparr>objects := (objects tr)
            (r := closed_object (filled tr (objects tr r) l p now) (final_status l) now),
          completed_signals := completed_signals tr @ [r],
          active_signals := (active_signals tr)(signal_id (objects tr r) := None)\<rparr>,
       update_signal_in_db v
         (closed_object (filled tr (objects tr r) l p now) (final_status l) now) True w),
      Inr (threshold_event tr (objects tr r) l p))"
  using assms unfolding is_level_def
  by (elim disjE; auto simp: handler_defs step_defs)

lemma run_handler_keyerror:
  assumes "entry_price (objects tr r) \<noteq> 0" and "is_level l"
    and "closing (set_flag l (objects tr r)) l"
    and "active_signals tr (signal_id (objects tr r)) = None"
  shows "run_handler v tr w now r l p =
     ((tr\<lparr>objects := (objects tr)
            (r := closed_object (filled tr (objects tr r) l p now) (final_status l) now),
          completed_signals := completed_signals tr @ [r]\<rparr>, w),
      Inl KeyError)"
  using assms unfolding is_level_def
  by (elim disjE; auto simp: handler_defs step_defs)

text \<open>In the \<open>telegram_bot\<close> copy the recomputation returns the sum of the fills'
  weighted contributions whenever \<open>entry_price\<close> is 0, and it never raises.\<close>

lemma telegram_roi_zero_entry:
  "entry_price m = 0 \<Longrightarrow>
   calculate_current_roi Telegram_bot tr m p = Inr (sum_list (map weighted_profit (fills m)))"
  by (simp add: calculate_current_roi_def Let_def)

lemma telegram_roi_never_raises:
  "\<exists>x. calculate_current_roi Telegram_bot tr m p = Inr x"
  by (simp add: calculate_current_roi_def Let_def change_ratio_def py_div_def)

lemma roi_nonzero_entry:
  "entry_price m \<noteq> 0 \<Longrightarrow> calculate_current_roi v tr m p = Inr (roi_of tr m p)"
  by (simp add: calculate_current_roi_def roi_of_def gain_def change_ratio_def py_div_def Let_def)

lemma roi_of_frame [simp]:
  "roi_of (tr\<lparr>objects := f\<rparr>) m p = roi_of tr m p"
  "roi_of (tr\<lparr>completed_signals := cs\<rparr>) m p = roi_of tr m p"
  "roi_of (tr\<lparr>active_signals := a\<rparr>) m p = roi_of tr m p"
  by (simp_all add: roi_of_def closed_percent_def)

lemma update_no_level:
  assumes "active_signals tr sid = Some r" and "entry_price (objects tr r) \<noteq> 0"
    and "evaluate (objects tr r) p = None"
  shows "update_signal_price v tr w now sid p =
     ((set_object tr r (priced tr (objects tr r) p),
       update_signal_in_db v (priced tr (objects tr r) p) False w), Inr None)"
  using assms
  by (simp add: update_signal_price_def check_levels_evaluate roi_nonzero_entry priced_def Let_def)

lemma filled_entry [simp]: "entry_price (filled tr m l p now) = entry_price m"
  by (simp add: filled_def set_flag_def)

lemma closed_object_entry [simp]: "entry_price (closed_object m st now) = entry_price m"
  by (simp add: closed_object_def)

lemma update_open_level:
  assumes "active_signals tr sid = Some r" and "entry_price (objects tr r) \<noteq> 0"
    and "evaluate (objects tr r) p = Some l"
    and "\<not> closing (set_flag l (objects tr r)) l"
  shows "update_signal_price v tr w now sid p =
     ((set_object tr r (priced tr (filled tr (objects tr r) l p now) p),
       update_signal_in_db v (priced tr (filled tr (objects tr r) l p now) p) False w),
      Inr (Some (threshold_event tr (objects tr r) l p)))"
  using assms evaluate_is_level [OF assms(3)]
  by (simp add: update_signal_price_def check_levels_evaluate run_handler_open
      roi_nonzero_entry priced_def set_object_def Let_def)

lemma update_closing_level:
  assumes "active_signals tr sid = Some r" and "entry_price (objects tr r) \<noteq> 0"
    and "evaluate (objects tr r) p = Some l"
    and "closing (set_flag l (objects tr r)) l"
    and "active_signals tr (signal_id (objects tr r)) = Some x"
  shows "update_signal_price v tr w now sid p =
     ((tr\<lparr>objects := (objects tr)
            (r := priced tr
                    (closed_object (filled tr (objects tr r) l p now) (final_status l) now) p),
          completed_signals := completed_signals tr @ [r],
          active_signals := (active_signals tr)(signal_id (objects tr r) := None)\<rparr>,
       update_signal_in_db v
         (priced tr (closed_object (filled tr (objects tr r) l p now) (final_status l) now) p)
         False
         (update_signal_in_db v
            (closed_object (filled tr (objects tr r) l p now) (final_status l) now) True w)),
      Inr (Some (threshold_event tr (objects tr r) l p)))"
  using assms evaluate_is_level [OF assms(3)]
  by (simp add: update_signal_price_def check_levels_evaluate run_handler_close
      roi_nonzero_entry priced_def set_object_def Let_def)

lemma update_keyerror:
  assumes "active_signals tr sid = Some r" and "entry_price (objects tr r) \<noteq> 0"
    and "evaluate (objects tr r) p = Some l"
    and "closing (set_flag l (objects tr r)) l"
    and "active_signals tr (signal_id (objects tr r)) = None"
  shows "update_signal_price v tr w now sid p =
     ((tr\<lparr>objects := (objects tr)
            (r := closed_object (filled tr (objects tr r) l p now) (final_status l) now),
          completed_signals := completed_signals tr @ [r]\<rparr>, w),
      Inl KeyError)"
  using assms evaluate_is_level [OF assms(3)]
  by (simp add: update_signal_price_def check_levels_evaluate run_handler_keyerror)

lemma update_zero_telegram:
  assumes "active_signals tr sid = Some r" and "entry_price (objects tr r) = 0"
  shows "update_signal_price Telegram_bot tr w now sid p =
     (case evaluate (objects tr r) p of
        None \<Rightarrow>
          (let m = (objects tr r)\<lparr>current_roi :=
                      sum_list (map weighted_profit (fills (objects tr r)))\<rparr>
           in ((set_object tr r m, update_signal_in_db Telegram_bot m False w), Inr None))
      | Some l \<Rightarrow>
          (let m = (set_flag l (objects tr r))\<lparr>current_roi :=
                      sum_list (map weighted_profit (fills (objects tr r)))\<rparr>
           in ((set_object tr r m, update_signal_in_db Telegram_bot m False w),
               Inr (Some (Error_event (signal_id (objects tr r)) ''entry_price_zero'')))))"
  using assms
  by (auto simp: update_signal_price_def check_levels_evaluate run_handler_zero_telegram
      telegram_roi_zero_entry set_object_def set_flag_def Let_def split: option.splits)

lemma update_zero_trading_level:
  assumes "active_signals tr sid = Some r" and "entry_price (objects tr r) = 0"
    and "evaluate (objects tr r) p = Some l"
  shows "update_signal_price Trading tr w now sid p =
     ((set_object tr r (set_flag l (objects tr r)), w), Inl ZeroDivisionError)"
  using assms
  by (simp add: update_signal_price_def check_levels_evaluate run_handler_zero_trading)

lemma update_zero_trading_snd:
  assumes "active_signals tr sid = Some r" and "entry_price (objects tr r) = 0"
    and "evaluate (objects tr r) p = None"
  shows "snd (update_signal_price Trading tr w now sid p) = Inl ZeroDivisionError
       \<or> snd (update_signal_price Trading tr w now sid p) = Inr None"
  using assms
  by (simp add: update_signal_price_def check_levels_evaluate calculate_current_roi_def
      change_ratio_def py_div_def Let_def)

lemma event_level_threshold:
  "is_level l \<Longrightarrow> event_level (threshold_event tr m l p) = Some l"
  by (auto simp: threshold_event_def is_level_def)


subsection \<open>Feeding, registration and counting\<close>

lemma feed_inactive:
  "active_signals tr sid = None \<Longrightarrow>
   feed v tr w sid ticks = ((tr, w), map (\<lambda>_. Inr None) ticks)"
  by (induction ticks) (auto simp: update_signal_price_def)

lemma fired_nothing: "fired (map (\<lambda>_. Inr None) ticks) = []"
  by (induction ticks) auto

lemmas model_defs = update_signal_price_def check_levels_def handle_tp_hit_def
  handle_sl_hit_def close_signal_def calculate_current_roi_def change_ratio_def py_div_def
  closed_percent_def set_object_def update_signal_in_db_def update_stmt_def row_key_def
  Let_def

lemmas example_defs = one_signal_def example_long_def init_def quiet_def

lemma stopped_out_event: "snd stopped_out = Inr (Some (Sl_hit_event ''BTC_7'' 85 (- 15)))"
  by (simp add: stopped_out_def model_defs example_defs)

lemma register_signal_result:
  assumes "sig_symbol d = Some smb" and "sig_direction d = Some dir"
    and "sig_entry_price d = Some e" and "sig_stop_loss d = Some sl"
  shows "register_signal v tr w ts now d =
     (let sid = smb @ ''_'' @ str_int ts;
          m = \<lparr>signal_id = sid, symbol = smb, direction = dir,
                 entry_price = e, stop_loss = sl,
                 tp1 = get_or_zero (sig_tp1 d), tp2 = get_or_zero (sig_tp2 d),
                 tp3 = get_or_zero (sig_tp3 d),
                 tp1_hit = False, tp2_hit = False, tp3_hit = False, sl_hit = False,
                 current_roi = 0, status = ''active'', entry_time = now,
                 close_time = None, fills = [],
                 quality_score = get_or_zero (sig_quality_score d)\<rparr>
      in ((tr\<lparr>objects := (objects tr)(next_ref tr := m), next_ref := Suc (next_ref tr),
               active_signals := (active_signals tr)(sid \<mapsto> next_ref tr)\<rparr>,
           save_signal_to_db v m w), Inr sid))"
  using assms by (simp add: register_signal_def set_object_def Let_def)

lemma register_signal_fields:
  assumes "sig_symbol d = Some smb" and "sig_direction d = Some dir"
    and "sig_entry_price d = Some e" and "sig_stop_loss d = Some sl"
    and reg: "register_signal v tr w ts now d = ((tr1, w1), res)"
  shows "res = Inr (smb @ ''_'' @ str_int ts)
       \<and> active_signals tr1 (smb @ ''_'' @ str_int ts) = Some (next_ref tr)
       \<and> signal_id (objects tr1 (next_ref tr)) = smb @ ''_'' @ str_int ts
       \<and> symbol (objects tr1 (next_ref tr)) = smb
       \<and> direction (objects tr1 (next_ref tr)) = dir
       \<and> entry_price (objects tr1 (next_ref tr)) = e
       \<and> stop_loss (objects tr1 (next_ref tr)) = sl
       \<and> tp1 (objects tr1 (next_ref tr)) = get_or_zero (sig_tp1 d)
       \<and> tp2 (objects tr1 (next_ref tr)) = get_or_zero (sig_tp2 d)
       \<and> tp3 (objects tr1 (next_ref tr)) = get_or_zero (sig_tp3 d)
       \<and> status (objects tr1 (next_ref tr)) = ''active''
       \<and> fills (objects tr1 (next_ref tr)) = []
       \<and> w1 = save_signal_to_db v (objects tr1 (next_ref tr)) w
       \<and> (db_script w = [] \<or> hd (db_script w) = Commit \<longrightarrow>
            db_committed w1 = db_committed w @ [insert_stmt v (objects tr1 (next_ref tr))])"
proof -
  from reg assms(1-4) have
    tr1: "tr1 = tr\<lparr>objects := (objects tr)(next_ref tr :=
                 \<lparr>signal_id = smb @ ''_'' @ str_int ts, symbol = smb, direction = dir,
                 entry_price = e, stop_loss = sl,
                 tp1 = get_or_zero (sig_tp1 d), tp2 = get_or_zero (sig_tp2 d),
                 tp3 = get_or_zero (sig_tp3 d),
                 tp1_hit = False, tp2_hit = False, tp3_hit = False, sl_hit = False,
                 current_roi = 0, status = ''active'', entry_time = now,
                 close_time = None, fills = [],
                 quality_score = get_or_zero (sig_quality_score d)\<rparr>),
               next_ref := Suc (next_ref tr),
               active_signals := (active_signals tr)(smb @ ''_'' @ str_int ts \<mapsto> next_ref tr)\<rparr>"
    and w1: "w1 = save_signal_to_db v (objects tr1 (next_ref tr)) w"
    and res: "res = Inr (smb @ ''_'' @ str_int ts)"
    by (auto simp: register_signal_result Let_def)
  have "db_script w = [] \<or> hd (db_script w) = Commit \<longrightarrow>
            db_committed w1 = db_committed w @ [insert_stmt v (objects tr1 (next_ref tr))]"
    unfolding w1 by (auto simp: save_signal_to_db_def split: list.splits db_outcome.splits)
  with tr1 w1 res show ?thesis by simp
qed

lemma registered_zero_state:
  "snd registered_zero = Inr ''BTC_7''"
  "active_signals (fst (fst registered_zero)) ''BTC_7'' = Some 0"
  by (simp_all add: registered_zero_def no_targets_zero_def no_targets_def
      register_signal_def set_object_def Let_def init_def quiet_def str_int_def str_nat.simps)


subsection \<open>Rising paths\<close>

lemma long_state_evaluate:
  assumes "long_state tr sid r sl t1 t2 t3 h1 h2" and "sl < p"
  shows "evaluate (objects tr r) p =
     (if p \<ge> t3 then Some ''tp3''
      else if \<not> h2 \<and> p \<ge> t2 then Some ''tp2''
      else if \<not> h1 \<and> p \<ge> t1 then Some ''tp1''
      else None)"
  using assms by (auto simp: long_state_def evaluate_def)

lemma long_step_none:
  assumes st: "long_state tr sid r sl t1 t2 t3 h1 h2"
    and ev: "evaluate (objects tr r) p = None"
    and upd: "update_signal_price v tr w now sid p = ((tr', w'), res)"
  shows "res = Inr None \<and> long_state tr' sid r sl t1 t2 t3 h1 h2"
proof -
  from st have act: "active_signals tr sid = Some r" and nz: "entry_price (objects tr r) \<noteq> 0"
    by (simp_all add: long_state_def)
  from update_no_level [OF act nz ev, of v w now] upd st show ?thesis
    by (auto simp: long_state_def set_object_def priced_def)
qed

lemma long_step_tp1:
  assumes st: "long_state tr sid r sl t1 t2 t3 False h2"
    and ev: "evaluate (objects tr r) p = Some ''tp1''"
    and upd: "update_signal_price v tr w now sid p = ((tr', w'), res)"
  shows "(\<exists>e. res = Inr (Some e) \<and> event_level e = Some ''tp1'')
       \<and> long_state tr' sid r sl t1 t2 t3 True h2"
proof -
  from st have act: "active_signals tr sid = Some r" and nz: "entry_price (objects tr r) \<noteq> 0"
    and t3: "\<not> tp3_hit (objects tr r)"
    by (simp_all add: long_state_def)
  from t3 have stays: "\<not> closing (set_flag ''tp1'' (objects tr r)) ''tp1''"
    by (simp add: closing_def set_flag_def)
  from update_open_level [OF act nz ev stays, of v w now] upd st show ?thesis
    by (auto simp: long_state_def set_object_def priced_def filled_def set_flag_def
        threshold_event_def)
qed

lemma long_step_tp2:
  assumes st: "long_state tr sid r sl t1 t2 t3 h1 False"
    and ev: "evaluate (objects tr r) p = Some ''tp2''"
    and upd: "update_signal_price v tr w now sid p = ((tr', w'), res)"
  shows "(\<exists>e. res = Inr (Some e) \<and> event_level e = Some ''tp2'')
       \<and> long_state tr' sid r sl t1 t2 t3 h1 True"
proof -
  from st have act: "active_signals tr sid = Some r" and nz: "entry_price (objects tr r) \<noteq> 0"
    and t3: "\<not> tp3_hit (objects tr r)"
    by (simp_all add: long_state_def)
  from t3 have stays: "\<not> closing (set_flag ''tp2'' (objects tr r)) ''tp2''"
    by (simp add: closing_def set_flag_def)
  from update_open_level [OF act nz ev stays, of v w now] upd st show ?thesis
    by (auto simp: long_state_def set_object_def priced_def filled_def set_flag_def
        threshold_event_def)
qed

lemma long_step_tp3:
  assumes st: "long_state tr sid r sl t1 t2 t3 h1 h2"
    and ev: "evaluate (objects tr r) p = Some ''tp3''"
    and upd: "update_signal_price v tr w now sid p = ((tr', w'), res)"
  shows "(\<exists>e. res = Inr (Some e) \<and> event_level e = Some ''tp3'')
       \<and> active_signals tr' sid = None"
proof -
  from st have act: "active_signals tr sid = Some r" and nz: "entry_price (objects tr r) \<noteq> 0"
    and self: "active_signals tr (signal_id (objects tr r)) = Some r"
    and key: "signal_id (objects tr r) = sid"
    by (simp_all add: long_state_def)
  have cl: "closing (set_flag ''tp3'' (objects tr r)) ''tp3''"
    by (simp add: closing_def)
  from update_closing_level [OF act nz ev cl self, of v w now] upd key show ?thesis
    by (auto simp: threshold_event_def)
qed

lemma feed_step:
  "update_signal_price v tr w now sid p = ((tr', w'), res) \<Longrightarrow>
   snd (feed v tr w sid ((now, p) # ticks)) = res # snd (feed v tr' w' sid ticks)"
  by (simp split: prod.splits)

lemma feed_long_trace:
  assumes "long_state tr sid r sl t1 t2 t3 h1 h2"
    and "\<forall>p \<in> set (map snd ticks). sl < p"
  shows "map event_level (fired (snd (feed v tr w sid ticks)))
         = map Some (long_trace t1 t2 t3 h1 h2 (map snd ticks))"
  using assms
proof (induction ticks arbitrary: tr w h1 h2)
  case Nil
  then show ?case by simp
next
  case (Cons tick ticks)
  obtain now p where tick: "tick = (now, p)" by (cases tick)
  obtain tr' w' res where upd: "update_signal_price v tr w now sid p = ((tr', w'), res)"
    by (metis prod.collapse)
  from Cons.prems tick have above: "sl < p" and rest: "\<forall>p \<in> set (map snd ticks). sl < p"
    by simp_all
  note ev = long_state_evaluate [OF Cons.prems(1) above]
  consider (tp3) "p \<ge> t3" | (tp2) "\<not> p \<ge> t3" "\<not> h2" "p \<ge> t2"
    | (tp1) "\<not> p \<ge> t3" "\<not> (\<not> h2 \<and> p \<ge> t2)" "\<not> h1" "p \<ge> t1"
    | (none) "\<not> p \<ge> t3" "\<not> (\<not> h2 \<and> p \<ge> t2)" "\<not> (\<not> h1 \<and> p \<ge> t1)"
    by blast
  then show ?case
  proof cases
    case tp3
    with ev have e: "evaluate (objects tr r) p = Some ''tp3''" by simp
    from long_step_tp3 [OF Cons.prems(1) e upd]
    obtain e' where "res = Inr (Some e')" "event_level e' = Some ''tp3''"
      and gone: "active_signals tr' sid = None" by blast
    with tp3 tick feed_step [OF upd, of ticks] show ?thesis
      by (simp add: feed_inactive fired_nothing)
  next
    case tp2
    with ev have e: "evaluate (objects tr r) p = Some ''tp2''" by simp
    from tp2 Cons.prems(1) have st: "long_state tr sid r sl t1 t2 t3 h1 False" by simp
    from long_step_tp2 [OF st e upd]
    obtain e' where r: "res = Inr (Some e')" "event_level e' = Some ''tp2''"
      and st': "long_state tr' sid r sl t1 t2 t3 h1 True" by blast
    from Cons.IH [OF st' rest, of w'] r tp2 tick feed_step [OF upd, of ticks] show ?thesis
      by simp
  next
    case tp1
    with ev have e: "evaluate (objects tr r) p = Some ''tp1''" by auto
    from tp1 Cons.prems(1) have st: "long_state tr sid r sl t1 t2 t3 False h2" by simp
    from long_step_tp1 [OF st e upd]
    obtain e' where r: "res = Inr (Some e')" "event_level e' = Some ''tp1''"
      and st': "long_state tr' sid r sl t1 t2 t3 True h2" by blast
    from Cons.IH [OF st' rest, of w'] r tp1 tick feed_step [OF upd, of ticks] show ?thesis
      by auto
  next
    case none
    with ev have e: "evaluate (objects tr r) p = None" by auto
    from long_step_none [OF Cons.prems(1) e upd]
    have r: "res = Inr None" and st': "long_state tr' sid r sl t1 t2 t3 h1 h2" by simp_all
    from Cons.IH [OF st' rest, of w'] r none tick feed_step [OF upd, of ticks] show ?thesis
      by auto
  qed
qed

lemma long_trace_last:
  "\<exists>p \<in> set ps. t3 \<le> p \<Longrightarrow> long_trace t1 t2 t3 True True ps = [''tp3'']"
  by (induction ps) auto

lemma long_trace_second:
  assumes "sorted ps" and "\<exists>p \<in> set ps. t2 \<le> p \<and> p < t3" and "\<exists>p \<in> set ps. t3 \<le> p"
  shows "long_trace t1 t2 t3 True False ps = [''tp2'', ''tp3'']"
  using assms
proof (induction ps)
  case Nil
  then show ?case by simp
next
  case (Cons p ps)
  from Cons.prems(1) have sorted: "sorted ps" and le: "\<forall>q \<in> set ps. p \<le> q" by simp_all
  show ?case
  proof (cases "p \<ge> t3")
    case True
    with le Cons.prems(2) show ?thesis by fastforce
  next
    case below3: False
    with Cons.prems(3) have top: "\<exists>q \<in> set ps. t3 \<le> q" by auto
    show ?thesis
    proof (cases "p \<ge> t2")
      case True
      with below3 top show ?thesis by (simp add: long_trace_last)
    next
      case False
      with Cons.prems(2) have "\<exists>q \<in> set ps. t2 \<le> q \<and> q < t3" by auto
      with Cons.IH [OF sorted _ top] False below3 show ?thesis by simp
    qed
  qed
qed

lemma long_trace_all:
  assumes "sorted ps" and "t1 < t2" and "t2 < t3"
    and "\<exists>p \<in> set ps. t1 \<le> p \<and> p < t2"
    and "\<exists>p \<in> set ps. t2 \<le> p \<and> p < t3" and "\<exists>p \<in> set ps. t3 \<le> p"
  shows "long_trace t1 t2 t3 False False ps = [''tp1'', ''tp2'', ''tp3'']"
  using assms
proof (induction ps)
  case Nil
  then show ?case by simp
next
  case (Cons p ps)
  from Cons.prems(1) have sorted: "sorted ps" and le: "\<forall>q \<in> set ps. p \<le> q" by simp_all
  show ?case
  proof (cases "p \<ge> t2")
    case True
    with le Cons.prems(4) show ?thesis by fastforce
  next
    case below2: False
    with Cons.prems(2,3,5,6) have mid: "\<exists>q \<in> set ps. t2 \<le> q \<and> q < t3"
      and top: "\<exists>q \<in> set ps. t3 \<le> q" by auto
    show ?thesis
    proof (cases "p \<ge> t1")
      case True
      with below2 Cons.prems(3) long_trace_second [OF sorted mid top] show ?thesis by simp
    next
      case False
      with Cons.prems(4) have "\<exists>q \<in> set ps. t1 \<le> q \<and> q < t2" by auto
      with Cons.IH [OF sorted Cons.prems(2,3) _ mid top] False below2 Cons.prems(3)
      show ?thesis by simp
    qed
  qed
qed

lemma one_signal_object: "objects one_signal 0 = example_long"
  by (simp add: one_signal_def set_object_def)

lemma one_signal_active: "active_signals one_signal ''BTC_7'' = Some 0"
  by (simp add: one_signal_def)

subsection \<open>The invariant is kept\<close>

lemma update_zero_trading_none:
  assumes "active_signals tr sid = Some r" and "entry_price (objects tr r) = 0"
    and "evaluate (objects tr r) p = None"
  shows "update_signal_price Trading tr w now sid p =
     (if 1 - closed_percent tr (objects tr r) > 0 then ((tr, w), Inl ZeroDivisionError)
      else (let m = (objects tr r)\<lparr>current_roi :=
                      sum_list (map weighted_profit (fills (objects tr r))) + 0\<rparr>
            in ((set_object tr r m, update_signal_in_db Trading m False w), Inr None)))"
  using assms
  by (simp add: update_signal_price_def check_levels_evaluate calculate_current_roi_def
      change_ratio_def py_div_def Let_def)

lemma closed_percent_priced [simp]:
  "closed_percent tr (priced tr' m p) = closed_percent tr m"
  "closed_percent tr (closed_object m st now) = closed_percent tr m"
  by (simp_all add: closed_percent_def priced_def closed_object_def)

lemma filled_fraction_priced [simp]:
  "filled_fraction (priced tr m p) = filled_fraction m"
  "filled_fraction (closed_object m st now) = filled_fraction m"
  by (simp_all add: filled_fraction_def priced_def closed_object_def)

lemma evaluate_flag_unset:
  assumes "evaluate m p = Some l"
  shows "(l = ''tp1'' \<and> \<not> tp1_hit m) \<or> (l = ''tp2'' \<and> \<not> tp2_hit m)
       \<or> (l = ''tp3'' \<and> \<not> tp3_hit m) \<or> (l = ''stop_loss'' \<and> \<not> sl_hit m)"
  using assms by (auto simp: evaluate_def split: if_splits)

lemma filled_balance_tp:
  assumes "evaluate m p = Some l" and "l \<noteq> ''stop_loss''"
  shows "filled_fraction (filled tr m l p now) - closed_percent tr (filled tr m l p now)
         = filled_fraction m - closed_percent tr m"
  using evaluate_flag_unset [OF assms(1)] assms(2)
  by (auto simp: filled_fraction_def filled_def set_flag_def new_fill_def level_percent_def
      closed_percent_def)

lemma filled_balance_sl:
  "filled_fraction (filled tr m ''stop_loss'' p now)
   = filled_fraction m + 1 - closed_percent tr m"
  by (simp add: filled_fraction_def filled_def set_flag_def new_fill_def level_percent_def
      closed_percent_def)

lemma closed_percent_config:
  "same_config tr tr' \<Longrightarrow> closed_percent tr' m = closed_percent tr m"
  by (simp add: same_config_def closed_percent_def)

lemma stays_openI:
  assumes "signal_id m' = signal_id (objects tr r)"
    and "entry_price m' = entry_price (objects tr r)"
    and "status m' = status (objects tr r)"
    and "entry_price m' \<noteq> 0 \<longrightarrow>
           filled_fraction m' - closed_percent tr m'
           = filled_fraction (objects tr r) - closed_percent tr (objects tr r)"
  shows "stays_open tr r (set_object tr r m')"
  unfolding stays_open_def using assms
  by (intro conjI exI [of _ m']) (simp_all add: set_object_def same_config_def)

lemma stays_open_same: "stays_open tr r tr"
  unfolding stays_open_def
  by (intro conjI exI [of _ "objects tr r"]) (simp_all add: same_config_def)

lemma gets_closedI:
  assumes "entry_price (objects tr r) \<noteq> 0"
    and "entry_price m' = entry_price (objects tr r)"
    and "(status m' = ''stopped''
           \<and> filled_fraction m'
               = filled_fraction (objects tr r) + 1 - closed_percent tr (objects tr r))
         \<or> (status m' = ''completed''
           \<and> filled_fraction m' - closed_percent tr m'
               = filled_fraction (objects tr r) - closed_percent tr (objects tr r))"
  shows "gets_closed tr r
           (tr\<lparr>objects := (objects tr)(r := m'),
               completed_signals := completed_signals tr @ [r],
               active_signals := (active_signals tr)(signal_id (objects tr r) := None)\<rparr>)"
  unfolding gets_closed_def using assms
  by (intro conjI exI [of _ m']) (simp_all add: same_config_def)

lemma set_flag_static [simp]:
  "signal_id (set_flag l m) = signal_id m"
  "entry_price (set_flag l m) = entry_price m"
  "status (set_flag l m) = status m"
  "fills (set_flag l m) = fills m"
  by (simp_all add: set_flag_def)

lemma filled_static [simp]:
  "signal_id (filled tr m l p now) = signal_id m"
  "status (filled tr m l p now) = status m"
  by (simp_all add: filled_def)

lemma priced_static [simp]:
  "signal_id (priced tr m p) = signal_id m"
  "entry_price (priced tr m p) = entry_price m"
  "status (priced tr m p) = status m"
  by (simp_all add: priced_def)

lemma closed_object_status [simp]: "status (closed_object m st now) = st"
  by (simp add: closed_object_def)

lemma update_shape:
  assumes act: "active_signals tr sid = Some r"
    and key: "signal_id (objects tr r) = sid"
    and upd: "update_signal_price v tr w now sid p = ((tr', w'), res)"
  shows "stays_open tr r tr' \<or> gets_closed tr r tr'"
proof (cases "entry_price (objects tr r) = 0")
  case zero: True
  show ?thesis
  proof (cases "evaluate (objects tr r) p")
    case None
    show ?thesis
    proof (cases v)
      case Telegram_bot
      with upd act zero None
      have "tr' = set_object tr r ((objects tr r)\<lparr>current_roi :=
                      sum_list (map weighted_profit (fills (objects tr r)))\<rparr>)"
        by (simp add: update_zero_telegram Let_def)
      then have "stays_open tr r tr'" using zero by (simp add: stays_openI)
      then show ?thesis ..
    next
      case Trading
      with upd act zero None
      have "tr' = tr \<or> tr' = set_object tr r ((objects tr r)\<lparr>current_roi :=
                      sum_list (map weighted_profit (fills (objects tr r))) + 0\<rparr>)"
        by (auto simp: update_zero_trading_none Let_def split: if_splits)
      then have "stays_open tr r tr'"
        using zero stays_open_same [of tr r] by (auto simp: stays_openI)
      then show ?thesis ..
    qed
  next
    case (Some l)
    show ?thesis
    proof (cases v)
      case Telegram_bot
      with upd act zero Some
      have "tr' = set_object tr r ((set_flag l (objects tr r))\<lparr>current_roi :=
                      sum_list (map weighted_profit (fills (objects tr r)))\<rparr>)"
        by (simp add: update_zero_telegram Let_def)
      then have "stays_open tr r tr'" using zero by (simp add: stays_openI)
      then show ?thesis ..
    next
      case Trading
      with upd act zero Some
      have "tr' = set_object tr r (set_flag l (objects tr r))"
        by (simp add: update_zero_trading_level)
      then have "stays_open tr r tr'" using zero by (simp add: stays_openI)
      then show ?thesis ..
    qed
  qed
next
  case nz: False
  show ?thesis
  proof (cases "evaluate (objects tr r) p")
    case None
    from update_no_level [OF act nz None, of v w now] upd
    have "tr' = set_object tr r (priced tr (objects tr r) p)" by simp
    then have "stays_open tr r tr'"
      by (simp add: stays_openI)
    then show ?thesis ..
  next
    case (Some l)
    show ?thesis
    proof (cases "closing (set_flag l (objects tr r)) l")
      case False
      then have tp: "l \<noteq> ''stop_loss''" by (auto simp: closing_def)
      from update_open_level [OF act nz Some False, of v w now] upd
      have "tr' = set_object tr r (priced tr (filled tr (objects tr r) l p now) p)"
        by simp
      with filled_balance_tp [OF Some tp, of tr now] have "stays_open tr r tr'"
        by (simp add: stays_openI)
      then show ?thesis ..
    next
      case True
      from act key have self: "active_signals tr (signal_id (objects tr r)) = Some r" by simp
      from update_closing_level [OF act nz Some True self, of v w now] upd
      have tr': "tr' = tr\<lparr>objects := (objects tr)
            (r := priced tr
                    (closed_object (filled tr (objects tr r) l p now) (final_status l) now) p),
          completed_signals := completed_signals tr @ [r],
          active_signals := (active_signals tr)(signal_id (objects tr r) := None)\<rparr>"
        by simp
      have "gets_closed tr r tr'"
      proof (cases "l = ''stop_loss''")
        case True
        with nz filled_balance_sl [of tr "objects tr r" p now] show ?thesis
          unfolding tr' by (intro gets_closedI) (simp_all add: final_status_def)
      next
        case False
        with nz filled_balance_tp [OF Some False, of tr now] show ?thesis
          unfolding tr' by (intro gets_closedI) (simp_all add: final_status_def)
      qed
      then show ?thesis ..
    qed
  qed
qed

lemma closed_percent_frame [simp]:
  "closed_percent (tr\<lparr>objects := f\<rparr>) m = closed_percent tr m"
  "closed_percent (tr\<lparr>next_ref := n\<rparr>) m = closed_percent tr m"
  "closed_percent (tr\<lparr>active_signals := a\<rparr>) m = closed_percent tr m"
  "closed_percent (tr\<lparr>completed_signals := c\<rparr>) m = closed_percent tr m"
  by (simp_all add: closed_percent_def)

lemma inv_init: "tracker_inv init"
  by (simp add: tracker_inv_def init_def)

lemma inv_stays_open:
  assumes inv: "tracker_inv tr" and act: "active_signals tr sid = Some r"
    and st: "stays_open tr r tr'"
  shows "tracker_inv tr'"
proof -
  from st obtain m' where cfg: "same_config tr tr'"
    and a: "active_signals tr' = active_signals tr"
    and c: "completed_signals tr' = completed_signals tr"
    and o: "objects tr' = (objects tr)(r := m')"
    and id: "signal_id m' = signal_id (objects tr r)"
    and en: "entry_price m' = entry_price (objects tr r)"
    and stt: "status m' = status (objects tr r)"
    and bal: "entry_price m' \<noteq> 0 \<longrightarrow>
                  filled_fraction m' - closed_percent tr m'
                  = filled_fraction (objects tr r) - closed_percent tr (objects tr r)"
    unfolding stays_open_def by blast
  note cp = closed_percent_config [OF cfg]
  from inv act have r_open: "r \<notin> set (completed_signals tr)"
    and r_bal: "entry_price (objects tr r) \<noteq> 0 \<longrightarrow>
                 filled_fraction (objects tr r) = closed_percent tr (objects tr r)"
    by (simp_all add: tracker_inv_def)
  have active: "signal_id (objects tr' q) = s \<and> status (objects tr' q) = ''active''
           \<and> q < next_ref tr' \<and> q \<notin> set (completed_signals tr')
           \<and> (entry_price (objects tr' q) \<noteq> 0 \<longrightarrow>
                 filled_fraction (objects tr' q) = closed_percent tr' (objects tr' q))"
    if "active_signals tr' s = Some q" for s q
  proof (cases "q = r")
    case True
    from that a have "active_signals tr s = Some r" using True by simp
    with inv have "signal_id (objects tr r) = s" "status (objects tr r) = ''active''"
      "r < next_ref tr" by (simp_all add: tracker_inv_def)
    with True o id en stt bal r_bal r_open c cfg cp show ?thesis
      by (simp add: same_config_def)
  next
    case False
    from that a have "active_signals tr s = Some q" by simp
    with inv False o c cfg cp show ?thesis
      by (simp add: tracker_inv_def same_config_def)
  qed
  have archived: "q < next_ref tr'
           \<and> (entry_price (objects tr' q) \<noteq> 0 \<longrightarrow>
                 (status (objects tr' q) = ''stopped'' \<and> filled_fraction (objects tr' q) = 1)
               \<or> (status (objects tr' q) = ''completed''
                    \<and> filled_fraction (objects tr' q) = closed_percent tr' (objects tr' q)))"
    if "q \<in> set (completed_signals tr')" for q
  proof -
    from that c have q: "q \<in> set (completed_signals tr)" by simp
    with r_open have "q \<noteq> r" by auto
    with inv q o cfg cp show ?thesis
      by (simp add: tracker_inv_def same_config_def)
  qed
  from inv cfg have "tp1_percentage tr' = 0.25 \<and> tp2_percentage tr' = 0.50
      \<and> tp3_percentage tr' = 0.25"
    by (simp add: tracker_inv_def same_config_def)
  with active archived show ?thesis
    unfolding tracker_inv_def by blast
qed

lemma inv_gets_closed:
  assumes inv: "tracker_inv tr" and act: "active_signals tr sid = Some r"
    and cl: "gets_closed tr r tr'"
  shows "tracker_inv tr'"
proof -
  from cl obtain m' where cfg: "same_config tr tr'"
    and a: "active_signals tr' = (active_signals tr)(signal_id (objects tr r) := None)"
    and c: "completed_signals tr' = completed_signals tr @ [r]"
    and nz: "entry_price (objects tr r) \<noteq> 0"
    and o: "objects tr' = (objects tr)(r := m')"
    and en: "entry_price m' = entry_price (objects tr r)"
    and fin: "(status m' = ''stopped''
                   \<and> filled_fraction m'
                     = filled_fraction (objects tr r) + 1 - closed_percent tr (objects tr r))
                \<or> (status m' = ''completed''
                   \<and> filled_fraction m' - closed_percent tr m'
                     = filled_fraction (objects tr r) - closed_percent tr (objects tr r))"
    unfolding gets_closed_def by blast
  note cp = closed_percent_config [OF cfg]
  from inv act have key: "signal_id (objects tr r) = sid"
    and r_open: "r \<notin> set (completed_signals tr)" and r_lt: "r < next_ref tr"
    and r_bal: "filled_fraction (objects tr r) = closed_percent tr (objects tr r)"
    using nz by (simp_all add: tracker_inv_def)
  have active: "signal_id (objects tr' q) = s \<and> status (objects tr' q) = ''active''
           \<and> q < next_ref tr' \<and> q \<notin> set (completed_signals tr')
           \<and> (entry_price (objects tr' q) \<noteq> 0 \<longrightarrow>
                 filled_fraction (objects tr' q) = closed_percent tr' (objects tr' q))"
    if "active_signals tr' s = Some q" for s q
  proof -
    from that a key have s: "s \<noteq> sid" and old: "active_signals tr s = Some q"
      by (auto split: if_splits)
    from inv old have "signal_id (objects tr q) = s" by (simp add: tracker_inv_def)
    with key s have "q \<noteq> r" by auto
    with inv old o c cfg cp show ?thesis
      by (simp add: tracker_inv_def same_config_def)
  qed
  have archived: "q < next_ref tr'
           \<and> (entry_price (objects tr' q) \<noteq> 0 \<longrightarrow>
                 (status (objects tr' q) = ''stopped'' \<and> filled_fraction (objects tr' q) = 1)
               \<or> (status (objects tr' q) = ''completed''
                    \<and> filled_fraction (objects tr' q) = closed_percent tr' (objects tr' q)))"
    if "q \<in> set (completed_signals tr')" for q
  proof (cases "q = r")
    case True
    with o fin r_bal r_lt cfg cp show ?thesis
      by (auto simp: same_config_def)
  next
    case False
    with that c have "q \<in> set (completed_signals tr)" by simp
    with inv False o cfg cp show ?thesis
      by (simp add: tracker_inv_def same_config_def)
  qed
  from inv cfg have "tp1_percentage tr' = 0.25 \<and> tp2_percentage tr' = 0.50
      \<and> tp3_percentage tr' = 0.25"
    by (simp add: tracker_inv_def same_config_def)
  with active archived show ?thesis
    unfolding tracker_inv_def by blast
qed

lemma inv_update:
  assumes inv: "tracker_inv tr"
    and upd: "update_signal_price v tr w now sid p = ((tr', w'), res)"
  shows "tracker_inv tr'"
proof (cases "active_signals tr sid")
  case None
  with upd inv show ?thesis by (simp add: update_signal_price_def)
next
  case (Some r)
  with inv have key: "signal_id (objects tr r) = sid" by (simp add: tracker_inv_def)
  from update_shape [OF Some key upd] inv_stays_open [OF inv Some] inv_gets_closed [OF inv Some]
  show ?thesis by blast
qed

lemma inv_register:
  assumes inv: "tracker_inv tr"
    and reg: "register_signal v tr w ts now d = ((tr', w'), res)"
  shows "tracker_inv tr'"
proof (cases "\<exists>smb dir e sl. sig_symbol d = Some smb \<and> sig_direction d = Some dir
    \<and> sig_entry_price d = Some e \<and> sig_stop_loss d = Some sl")
  case False
  with reg have "tr' = tr"
    by (auto simp: register_signal_def split: option.splits)
  with inv show ?thesis by simp
next
  case True
  then obtain smb dir e sl where d: "sig_symbol d = Some smb" "sig_direction d = Some dir"
    "sig_entry_price d = Some e" "sig_stop_loss d = Some sl" by blast
  let ?sid = "smb @ ''_'' @ str_int ts" and ?r = "next_ref tr"
  from register_signal_result [OF d, of v tr w ts now] reg
  obtain m where tr': "tr' = tr\<lparr>objects := (objects tr)(?r := m), next_ref := Suc ?r,
               active_signals := (active_signals tr)(?sid \<mapsto> ?r)\<rparr>"
    and m: "signal_id m = ?sid" "status m = ''active''" "fills m = []"
      "\<not> tp1_hit m" "\<not> tp2_hit m" "\<not> tp3_hit m"
    by (auto simp: Let_def)
  from m have fresh: "filled_fraction m = closed_percent tr m"
    by (simp add: filled_fraction_def closed_percent_def)
  from inv have lt_a: "\<And>s q. active_signals tr s = Some q \<Longrightarrow> q < ?r"
    and lt_c: "\<And>q. q \<in> set (completed_signals tr) \<Longrightarrow> q < ?r"
    by (auto simp: tracker_inv_def)
  have active: "signal_id (objects tr' q) = s \<and> status (objects tr' q) = ''active''
           \<and> q < next_ref tr' \<and> q \<notin> set (completed_signals tr')
           \<and> (entry_price (objects tr' q) \<noteq> 0 \<longrightarrow>
                 filled_fraction (objects tr' q) = closed_percent tr' (objects tr' q))"
    if "active_signals tr' s = Some q" for s q
  proof (cases "s = ?sid")
    case True
    with that tr' have "q = ?r" by simp
    with True m fresh lt_c [of ?r] show ?thesis
      by (auto simp: tr')
  next
    case False
    with that tr' have old: "active_signals tr s = Some q" by simp
    from lt_a [OF old] have ne: "q \<noteq> ?r" and lt: "q < Suc ?r" by simp_all
    from inv old have "signal_id (objects tr q) = s" "status (objects tr q) = ''active''"
      "q \<notin> set (completed_signals tr)"
      "entry_price (objects tr q) \<noteq> 0 \<longrightarrow>
         filled_fraction (objects tr q) = closed_percent tr (objects tr q)"
      by (simp_all add: tracker_inv_def)
    with ne lt show ?thesis
      by (simp add: tr')
  qed
  have archived: "q < next_ref tr'
           \<and> (entry_price (objects tr' q) \<noteq> 0 \<longrightarrow>
                 (status (objects tr' q) = ''stopped'' \<and> filled_fraction (objects tr' q) = 1)
               \<or> (status (objects tr' q) = ''completed''
                    \<and> filled_fraction (objects tr' q) = closed_percent tr' (objects tr' q)))"
    if "q \<in> set (completed_signals tr')" for q
  proof -
    from that tr' have q: "q \<in> set (completed_signals tr)" by simp
    from lt_c [OF q] have ne: "q \<noteq> ?r" and lt: "q < Suc ?r" by simp_all
    from inv q have "entry_price (objects tr q) \<noteq> 0 \<longrightarrow>
                 (status (objects tr q) = ''stopped'' \<and> filled_fraction (objects tr q) = 1)
               \<or> (status (objects tr q) = ''completed''
                    \<and> filled_fraction (objects tr q) = closed_percent tr (objects tr q))"
      by (simp add: tracker_inv_def)
    with ne lt show ?thesis
      by (simp add: tr')
  qed
  from inv have "tp1_percentage tr' = 0.25 \<and> tp2_percentage tr' = 0.50
      \<and> tp3_percentage tr' = 0.25"
    by (simp add: tracker_inv_def tr')
  with active archived show ?thesis
    unfolding tracker_inv_def by blast
qed

lemma reachable_inv: "reachable v tr \<Longrightarrow> tracker_inv tr"
  by (induction rule: reachable.induct) (auto intro: inv_init inv_register inv_update)

lemma reachable_registered_valid: "reachable Telegram_bot (fst (fst registered_valid))"
proof -
  have "register_signal Telegram_bot init quiet 7 0 valid_long
      = ((fst (fst registered_valid), snd (fst registered_valid)), snd registered_valid)"
    by (simp add: registered_valid_def)
  from reachable.register [OF reachable.start this] show ?thesis .
qed

lemma reachable_jumped: "reachable Telegram_bot (fst (fst jumped))"
proof -
  have "update_signal_price Telegram_bot (fst (fst registered_valid))
     (snd (fst registered_valid)) 1 ''BTC_7'' 135
      = ((fst (fst jumped), snd (fst jumped)), snd jumped)"
    by (simp add: jumped_def)
  from reachable.update [OF reachable_registered_valid this] show ?thesis .
qed

lemma reachable_dropped: "reachable Telegram_bot (fst (fst dropped))"
proof -
  have "update_signal_price Telegram_bot (fst (fst registered_valid))
     (snd (fst registered_valid)) 1 ''BTC_7'' 85
      = ((fst (fst dropped), snd (fst dropped)), snd dropped)"
    by (simp add: dropped_def)
  from reachable.update [OF reachable_registered_valid this] show ?thesis .
qed

lemmas registered_valid_defs = registered_valid_def valid_long_def register_signal_def
  set_object_def Let_def init_def quiet_def str_int_def str_nat.simps get_or_zero_def
  save_signal_to_db_def

lemma jumped_state:
  "completed_signals (fst (fst jumped)) = [0]"
  "status (objects (fst (fst jumped)) 0) = ''completed''"
  "entry_price (objects (fst (fst jumped)) 0) = 100"
  "filled_fraction (objects (fst (fst jumped)) 0) = 0.25"
  by (simp_all add: jumped_def registered_valid_defs model_defs filled_fraction_def)

lemma dropped_state:
  "completed_signals (fst (fst dropped)) = [0]"
  "status (objects (fst (fst dropped)) 0) = ''stopped''"
  "entry_price (objects (fst (fst dropped)) 0) = 100"
  by (simp_all add: dropped_def registered_valid_defs model_defs)

subsection \<open>Unknown signals\<close>

text \<open>
  Claim C9. For every \<open>signal_id\<close> that is not a key of \<open>active_signals\<close> (the id of a
  closed signal included, since closing deletes the key) and every price,
  \<open>update_signal_price\<close> returns \<open>None\<close> and leaves the tracker, with its active map,
  archive and every object, and the database untouched, in both copies of the class.
\<close>

theorem update_unknown_signal_is_noop:
  "active_signals tr sid = None \<Longrightarrow>
   update_signal_price v tr w now sid p = ((tr, w), Inr None)"
  by (simp add: update_signal_price_def)

theorem update_unknown_signal_is_noop_witness:
  "active_signals one_signal ''ETH_7'' = None \<and>
   update_signal_price Telegram_bot one_signal quiet 5 ''ETH_7'' 135
     = ((one_signal, quiet), Inr None)"
  using update_unknown_signal_is_noop [of one_signal "''ETH_7''" Telegram_bot quiet 5 135]
  by (simp add: one_signal_def)

subsection \<open>Zero entry price\<close>

text \<open>
  Claim C4. With \<open>entry_price = 0\<close> the recomputation of \<open>current_roi\<close> must not divide by
  zero. The \<open>trading\<close> copy of \<open>_calculate_current_roi\<close> has no guard: for the signal
  \<open>zero_entry\<close>, which has no fills and no target hit, it raises \<open>ZeroDivisionError\<close>
  at price 100, where the guarded copy returns 0; and so \<open>update_signal_price\<close> raises
  for a tracker that holds this signal, where the guarded copy returns \<open>None\<close>.
\<close>

theorem trading_roi_divides_by_zero:
  "calculate_current_roi Trading init zero_entry 100 = Inl ZeroDivisionError \<and>
   calculate_current_roi Telegram_bot init zero_entry 100 = Inr 0 \<and>
   snd (update_signal_price Trading one_zero_signal quiet 5 ''BTC_7'' 100)
     = Inl ZeroDivisionError \<and>
   snd (update_signal_price Telegram_bot one_zero_signal quiet 5 ''BTC_7'' 100) = Inr None"
  by (simp add: update_signal_price_def check_levels_def calculate_current_roi_def Let_def
      change_ratio_def py_div_def one_zero_signal_def one_signal_def set_object_def
      zero_entry_def example_long_def init_def closed_percent_def)

subsection \<open>Database contention\<close>

text \<open>In the \<open>telegram_bot\<close> copy an update that meets a locked database ten times in a
  row makes ten attempts, sleeps \<open>0.2 * 2 ** attempt\<close> after each of the first nine,
  logs the error and returns with nothing committed.\<close>

lemma telegram_update_retries_then_drops:
  assumes "db_script w =
    [Locked, Locked, Locked, Locked, Locked, Locked, Locked, Locked, Locked, Locked] @ rest"
  shows "update_signal_in_db Telegram_bot m final w =
     w\<lparr>db_script := rest,
       slept := slept w @ map (\<lambda>attempt. 0.2 * 2 ^ attempt) [0..<9],
       logged := logged w
         @ map (\<lambda>attempt. Warning_locked (attempt + 1) 10 (0.2 * 2 ^ attempt)) [0..<9]
         @ [Error_update]\<rparr>"
  using assms by (simp add: update_signal_in_db_def upt_rec)

text \<open>Whatever the database does, the tracker that \<open>update_signal_price\<close> leaves and
  the value it returns are the same: a dropped write changes nothing in memory.\<close>

lemma update_ignores_database:
  "fst (fst (update_signal_price v tr w now sid p))
     = fst (fst (update_signal_price v tr w' now sid p))
   \<and> snd (update_signal_price v tr w now sid p) = snd (update_signal_price v tr w' now sid p)"
proof (cases "active_signals tr sid")
  case None
  then show ?thesis by (simp add: update_signal_price_def)
next
  case act: (Some r)
  show ?thesis
  proof (cases "entry_price (objects tr r) = 0")
    case zero: True
    show ?thesis
    proof (cases v)
      case Telegram_bot
      with act zero show ?thesis
        by (simp add: update_zero_telegram Let_def split: option.splits)
    next
      case Trading
      with act zero show ?thesis
        by (cases "evaluate (objects tr r) p")
          (simp_all add: update_zero_trading_none update_zero_trading_level Let_def)
    qed
  next
    case nz: False
    show ?thesis
    proof (cases "evaluate (objects tr r) p")
      case None
      with act nz show ?thesis by (simp add: update_no_level)
    next
      case (Some l)
      show ?thesis
      proof (cases "closing (set_flag l (objects tr r)) l")
        case False
        with act nz Some show ?thesis by (simp add: update_open_level)
      next
        case True
        with act nz Some show ?thesis
          by (cases "active_signals tr (signal_id (objects tr r))")
            (simp_all add: update_keyerror update_closing_level)
      qed
    qed
  qed
qed

text \<open>
  Claim C6. An update that meets \<open>database is locked\<close> must be retried with exponential
  backoff, up to ten attempts, before it is dropped. The \<open>trading\<close> copy of
  \<open>_update_signal_in_db\<close> has no retry loop: with the database locked once, it makes one
  attempt, sleeps never, logs the error and drops the update, although the second
  attempt would have committed.
\<close>

theorem trading_update_is_not_retried:
  "update_signal_in_db Trading example_long False (quiet\<lparr>db_script := [Locked]\<rparr>)
     = quiet\<lparr>logged := [Error_update]\<rparr> \<and>
   update_signal_in_db Telegram_bot example_long False (quiet\<lparr>db_script := [Locked]\<rparr>)
     = quiet\<lparr>db_committed := [update_stmt Telegram_bot example_long False],
         slept := [0.2],
         logged := [Warning_locked 1 10 0.2]\<rparr>"
  by (simp add: update_signal_in_db_def quiet_def upt_rec)

subsection \<open>The threshold chain\<close>

text \<open>
  Claim C1. For an active signal, one call of \<open>update_signal_price\<close> returns at most one
  dict. When no level of the chain qualifies (flag unset and price test true) it returns
  no event; a \<open>tp_hit\<close> or \<open>sl_hit\<close> it returns is for the level the chain of the
  specification selects, the first in the order TP3, TP2, TP1, STOP; and for a signal with
  a non-zero entry price stored under its own id the returned event is exactly that
  level's, or \<open>None\<close> when there is none. This holds in both copies.
\<close>

theorem update_fires_first_unhit_level:
  assumes act: "active_signals tr sid = Some r"
  shows "(evaluate (objects tr r) p = None \<longrightarrow>
            (\<forall>e. snd (update_signal_price v tr w now sid p) \<noteq> Inr (Some e)))
       \<and> (\<forall>e. snd (update_signal_price v tr w now sid p) = Inr (Some e) \<longrightarrow>
              event_level e \<noteq> None \<longrightarrow> event_level e = evaluate (objects tr r) p)
       \<and> (entry_price (objects tr r) \<noteq> 0 \<and> signal_id (objects tr r) = sid \<longrightarrow>
            (\<exists>ev. snd (update_signal_price v tr w now sid p) = Inr ev
               \<and> (case ev of None \<Rightarrow> None | Some e \<Rightarrow> event_level e)
                   = evaluate (objects tr r) p))"
proof (cases "entry_price (objects tr r) = 0")
  case True
  show ?thesis
  proof (cases v)
    case Telegram_bot
    with True act show ?thesis
      by (simp add: update_zero_telegram Let_def split: option.splits)
  next
    case Trading
    show ?thesis
    proof (cases "evaluate (objects tr r) p")
      case None
      with True act Trading update_zero_trading_snd [of tr sid r p w now] show ?thesis
        by auto
    next
      case (Some l)
      with True act Trading show ?thesis
        by (simp add: update_zero_trading_level)
    qed
  qed
next
  case False
  show ?thesis
  proof (cases "evaluate (objects tr r) p")
    case None
    with False act show ?thesis by (simp add: update_no_level)
  next
    case (Some l)
    note lvl = evaluate_is_level [OF Some]
    show ?thesis
    proof (cases "closing (set_flag l (objects tr r)) l")
      case no: False
      with False act Some lvl show ?thesis
        by (simp add: update_open_level event_level_threshold)
    next
      case yes: True
      show ?thesis
      proof (cases "active_signals tr (signal_id (objects tr r))")
        case None
        with False act Some yes show ?thesis
          by (auto simp: update_keyerror)
      next
        case (Some x)
        with False act \<open>evaluate (objects tr r) p = Some l\<close> yes lvl show ?thesis
          by (simp add: update_closing_level event_level_threshold)
      qed
    qed
  qed
qed

theorem update_fires_first_unhit_level_witness:
  "active_signals one_signal ''BTC_7'' = Some 0
   \<and> entry_price (objects one_signal 0) \<noteq> 0
   \<and> signal_id (objects one_signal 0) = ''BTC_7''
   \<and> evaluate (objects one_signal 0) 125 = Some ''tp2''
   \<and> (\<exists>e. snd (update_signal_price Telegram_bot one_signal quiet 5 ''BTC_7'' 125)
             = Inr (Some e) \<and> event_level e = Some ''tp2'')"
proof -
  have a: "active_signals one_signal ''BTC_7'' = Some 0"
    by (simp add: one_signal_def)
  have b: "entry_price (objects one_signal 0) \<noteq> 0 \<and> signal_id (objects one_signal 0) = ''BTC_7''"
    by (simp add: one_signal_def set_object_def example_long_def)
  have c: "evaluate (objects one_signal 0) 125 = Some ''tp2''"
    by (simp add: one_signal_def set_object_def example_long_def evaluate_def)
  from update_fires_first_unhit_level [OF a, of 125 Telegram_bot quiet 5] b c
  show ?thesis using a by (auto split: option.splits)
qed


subsection \<open>The stop-loss fill\<close>

text \<open>When \<open>update_signal_price\<close> returns an \<open>sl_hit\<close> for a signal stored under its own
  id, the object has gained exactly one fill, of level \<open>stop_loss\<close>, whose \<open>percentage\<close>
  is 1 minus the allocations of the TP levels whose flags were set; the signal is then
  stopped, archived and no longer active, and no later tick fires anything for it.\<close>

lemma stop_event_appends_remaining:
  assumes act: "active_signals tr sid = Some r"
    and key: "signal_id (objects tr r) = sid"
    and stop: "update_signal_price v tr w now sid p = ((tr', w'), Inr (Some (Sl_hit_event i q x)))"
  shows "\<exists>f. fills (objects tr' r) = fills (objects tr r) @ [f]
            \<and> level f = ''stop_loss''
            \<and> percentage f = 1 - closed_percent tr (objects tr r)
            \<and> (\<not> tp1_hit (objects tr r) \<and> \<not> tp2_hit (objects tr r) \<and> \<not> tp3_hit (objects tr r)
                 \<longrightarrow> percentage f = 1)
            \<and> status (objects tr' r) = ''stopped''
            \<and> active_signals tr' sid = None
            \<and> completed_signals tr' = completed_signals tr @ [r]
            \<and> (\<forall>ticks. fired (snd (feed v tr' w' sid ticks)) = [])"
proof -
  let ?m = "objects tr r"
  have nz: "entry_price ?m \<noteq> 0"
  proof
    assume z: "entry_price ?m = 0"
    show False
    proof (cases v)
      case Telegram_bot
      with stop act z show False
        by (simp add: update_zero_telegram Let_def split: option.splits)
    next
      case Trading
      show False
      proof (cases "evaluate ?m p")
        case None
        with update_zero_trading_snd [OF act z None, of w now] stop Trading show False by simp
      next
        case (Some l)
        with stop act z Trading show False by (simp add: update_zero_trading_level)
      qed
    qed
  qed
  obtain l where ev: "evaluate ?m p = Some l"
    using stop act nz by (cases "evaluate ?m p") (simp_all add: update_no_level)
  note lvl = evaluate_is_level [OF ev]
  have cl: "closing (set_flag l ?m) l"
  proof (rule ccontr)
    assume "\<not> closing (set_flag l ?m) l"
    then have "l \<noteq> ''stop_loss''" by (auto simp: closing_def)
    moreover from \<open>\<not> closing (set_flag l ?m) l\<close> stop act nz ev
    have "threshold_event tr ?m l p = Sl_hit_event i q x"
      by (simp add: update_open_level)
    ultimately show False by (simp add: threshold_event_def)
  qed
  from act key have self: "active_signals tr (signal_id ?m) = Some r" by simp
  from update_closing_level [OF act nz ev cl self, of v w now] stop
  have te: "threshold_event tr ?m l p = Sl_hit_event i q x"
    and tr': "tr' = tr\<lparr>objects := (objects tr)
            (r := priced tr (closed_object (filled tr ?m l p now) (final_status l) now) p),
          completed_signals := completed_signals tr @ [r],
          active_signals := (active_signals tr)(signal_id ?m := None)\<rparr>"
    by simp_all
  from te have sl: "l = ''stop_loss''" by (simp add: threshold_event_def split: if_splits)
  have inactive: "active_signals tr' sid = None" using tr' key by simp
  have "fills (objects tr' r) = fills ?m @ [new_fill tr (set_flag l ?m) l p now]"
    using tr' by (simp add: priced_def closed_object_def filled_def)
  moreover have "level (new_fill tr (set_flag l ?m) l p now) = ''stop_loss''"
    using sl by (simp add: new_fill_def)
  moreover have "percentage (new_fill tr (set_flag l ?m) l p now) = 1 - closed_percent tr ?m"
    using sl by (simp add: new_fill_def level_percent_def set_flag_def closed_percent_def)
  moreover have "\<not> tp1_hit ?m \<and> \<not> tp2_hit ?m \<and> \<not> tp3_hit ?m \<longrightarrow>
      percentage (new_fill tr (set_flag l ?m) l p now) = 1"
    using sl by (simp add: new_fill_def level_percent_def set_flag_def closed_percent_def)
  moreover have "status (objects tr' r) = ''stopped''"
    using tr' sl by (simp add: priced_def closed_object_def final_status_def)
  moreover have "completed_signals tr' = completed_signals tr @ [r]" using tr' by simp
  moreover have "\<forall>ticks. fired (snd (feed v tr' w' sid ticks)) = []"
    using inactive by (simp add: feed_inactive fired_nothing)
  ultimately show ?thesis using inactive by blast
qed

text \<open>For a signal with a non-zero entry price, stored under its own id, for which the
  chain selects the stop, the \<open>sl_hit\<close> is returned.\<close>

lemma stop_event_fires:
  assumes act: "active_signals tr sid = Some r"
    and key: "signal_id (objects tr r) = sid"
    and nz: "entry_price (objects tr r) \<noteq> 0"
    and ev: "evaluate (objects tr r) p = Some ''stop_loss''"
  shows "\<exists>x. snd (update_signal_price v tr w now sid p) = Inr (Some (Sl_hit_event sid p x))"
proof -
  have cl: "closing (set_flag ''stop_loss'' (objects tr r)) ''stop_loss''"
    by (simp add: closing_def)
  from act key have self: "active_signals tr (signal_id (objects tr r)) = Some r" by simp
  from update_closing_level [OF act nz ev cl self, of v w now] key show ?thesis
    by (simp add: threshold_event_def)
qed

lemma one_zero_signal_facts:
  "active_signals one_zero_signal ''BTC_7'' = Some 0"
  "objects one_zero_signal 0 = zero_entry"
  by (simp_all add: one_zero_signal_def one_signal_def set_object_def)

text \<open>
  Claim C5 says that a stop hit before any target fires exactly one STOP event, which
  closes the whole position. For the signal \<open>zero_entry\<close>, with no target hit, the price
  85 is below the stop 90 and the chain selects the stop, yet no STOP event fires: the
  \<open>telegram_bot\<close> copy sets \<open>sl_hit\<close>, returns an \<open>error\<close> dict, appends no fill and
  leaves the signal active, on this tick and on every later one; the \<open>trading\<close> copy
  raises \<open>ZeroDivisionError\<close>.
\<close>

theorem zero_entry_stop_never_fires:
  "active_signals one_zero_signal ''BTC_7'' = Some 0
   \<and> signal_id (objects one_zero_signal 0) = ''BTC_7''
   \<and> \<not> tp1_hit (objects one_zero_signal 0) \<and> \<not> tp2_hit (objects one_zero_signal 0)
   \<and> \<not> tp3_hit (objects one_zero_signal 0)
   \<and> evaluate (objects one_zero_signal 0) 85 = Some ''stop_loss''
   \<and> snd zero_stopped = Inr (Some (Error_event ''BTC_7'' ''entry_price_zero''))
   \<and> fills (objects (fst (fst zero_stopped)) 0) = []
   \<and> sl_hit (objects (fst (fst zero_stopped)) 0)
   \<and> status (objects (fst (fst zero_stopped)) 0) = ''active''
   \<and> active_signals (fst (fst zero_stopped)) ''BTC_7'' = Some 0
   \<and> fired (snd (feed Telegram_bot one_zero_signal quiet ''BTC_7'' stop_path))
       = [Error_event ''BTC_7'' ''entry_price_zero'']
   \<and> snd (update_signal_price Trading one_zero_signal quiet 1 ''BTC_7'' 85)
       = Inl ZeroDivisionError"
  by (simp add: zero_stopped_def stop_path_def one_zero_signal_def one_signal_def
      zero_entry_def example_long_def init_def quiet_def evaluate_def model_defs)

text \<open>
  Claim C5, amended. For a signal stored under its own id: whenever \<open>update_signal_price\<close>
  returns an \<open>sl_hit\<close>, exactly one fill of level \<open>stop_loss\<close> has been appended, whose
  \<open>percentage\<close> is 1 minus the allocations of the TP levels whose flags were set, which
  is 1, the whole position, when no target was hit; the signal is then stopped, archived
  and no longer active, so that no later tick fires anything for it. And when the entry
  price is not 0 and the chain selects the stop, the \<open>sl_hit\<close> is returned: the stop fires
  exactly once. This holds in both copies.
\<close>

theorem stop_closes_remaining_position:
  assumes act: "active_signals tr sid = Some r"
    and key: "signal_id (objects tr r) = sid"
    and upd: "update_signal_price v tr w now sid p = ((tr', w'), res)"
  shows "(entry_price (objects tr r) \<noteq> 0 \<and> evaluate (objects tr r) p = Some ''stop_loss''
            \<longrightarrow> (\<exists>x. res = Inr (Some (Sl_hit_event sid p x))))
       \<and> ((\<exists>i q x. res = Inr (Some (Sl_hit_event i q x))) \<longrightarrow>
            (\<exists>f. fills (objects tr' r) = fills (objects tr r) @ [f]
               \<and> level f = ''stop_loss''
               \<and> percentage f = 1 - closed_percent tr (objects tr r)
               \<and> (\<not> tp1_hit (objects tr r) \<and> \<not> tp2_hit (objects tr r)
                    \<and> \<not> tp3_hit (objects tr r) \<longrightarrow> percentage f = 1)
               \<and> status (objects tr' r) = ''stopped''
               \<and> active_signals tr' sid = None
               \<and> completed_signals tr' = completed_signals tr @ [r]
               \<and> (\<forall>ticks. fired (snd (feed v tr' w' sid ticks)) = [])))"
proof (intro conjI impI)
  assume "entry_price (objects tr r) \<noteq> 0 \<and> evaluate (objects tr r) p = Some ''stop_loss''"
  with stop_event_fires [OF act key, of p v w now] upd
  show "\<exists>x. res = Inr (Some (Sl_hit_event sid p x))" by simp
next
  assume "\<exists>i q x. res = Inr (Some (Sl_hit_event i q x))"
  then obtain i q x where "res = Inr (Some (Sl_hit_event i q x))" by blast
  with upd have "update_signal_price v tr w now sid p
      = ((tr', w'), Inr (Some (Sl_hit_event i q x)))" by simp
  from stop_event_appends_remaining [OF act key this]
  show "\<exists>f. fills (objects tr' r) = fills (objects tr r) @ [f]
               \<and> level f = ''stop_loss''
               \<and> percentage f = 1 - closed_percent tr (objects tr r)
               \<and> (\<not> tp1_hit (objects tr r) \<and> \<not> tp2_hit (objects tr r)
                    \<and> \<not> tp3_hit (objects tr r) \<longrightarrow> percentage f = 1)
               \<and> status (objects tr' r) = ''stopped''
               \<and> active_signals tr' sid = None
               \<and> completed_signals tr' = completed_signals tr @ [r]
               \<and> (\<forall>ticks. fired (snd (feed v tr' w' sid ticks)) = [])" .
qed

theorem stop_closes_remaining_position_witness:
  "active_signals one_signal ''BTC_7'' = Some 0
   \<and> signal_id (objects one_signal 0) = ''BTC_7''
   \<and> entry_price (objects one_signal 0) \<noteq> 0
   \<and> evaluate (objects one_signal 0) 85 = Some ''stop_loss''
   \<and> (\<exists>x. snd stopped_out = Inr (Some (Sl_hit_event ''BTC_7'' 85 x)))
   \<and> (\<exists>f. fills (objects (fst (fst stopped_out)) 0) = fills (objects one_signal 0) @ [f]
          \<and> percentage f = 1)
   \<and> status (objects (fst (fst stopped_out)) 0) = ''stopped''
   \<and> active_signals (fst (fst stopped_out)) ''BTC_7'' = None"
proof -
  have a: "active_signals one_signal ''BTC_7'' = Some 0"
    by (simp add: one_signal_def)
  have k: "signal_id (objects one_signal 0) = ''BTC_7''"
    and nz: "entry_price (objects one_signal 0) \<noteq> 0"
    and ev: "evaluate (objects one_signal 0) 85 = Some ''stop_loss''"
    and n: "\<not> tp1_hit (objects one_signal 0) \<and> \<not> tp2_hit (objects one_signal 0)
      \<and> \<not> tp3_hit (objects one_signal 0)"
    by (simp_all add: one_signal_def set_object_def example_long_def evaluate_def)
  have s: "update_signal_price Telegram_bot one_signal quiet 5 ''BTC_7'' 85
      = ((fst (fst stopped_out), snd (fst stopped_out)), snd stopped_out)"
    by (simp add: stopped_out_def)
  from stop_closes_remaining_position [OF a k s] nz ev n a k
  show ?thesis by blast
qed

subsection \<open>Registration\<close>

text \<open>
  Claim C3 says that \<open>register\<close> rejects a definition whose prices are out of order or
  not positive. It does not: \<open>invalid_long\<close> (LONG, entry 100, stop 200, targets 50, 40
  and -5) is stored in the active set under the id it returns, and its row is inserted.
\<close>

theorem register_signal_accepts_invalid:
  "\<not> spec_valid_signal invalid_long
   \<and> snd registered_invalid = Inr ''BTC_7''
   \<and> active_signals (fst (fst registered_invalid)) ''BTC_7'' = Some 0
   \<and> stop_loss (objects (fst (fst registered_invalid)) 0) = 200
   \<and> entry_price (objects (fst (fst registered_invalid)) 0) = 100
   \<and> tp3 (objects (fst (fst registered_invalid)) 0) = - 5
   \<and> length (db_committed (snd (fst registered_invalid))) = 1"
  by (simp add: spec_valid_signal_def invalid_long_def registered_invalid_def
      register_signal_def set_object_def Let_def init_def quiet_def str_int_def str_nat.simps
      get_or_zero_def save_signal_to_db_def)

text \<open>
  Claim C3, amended. \<open>register_signal\<close> checks nothing about the prices and never
  rejects: every definition that carries \<open>symbol\<close>, \<open>direction\<close>, \<open>entry_price\<close> and
  \<open>stop_loss\<close> is stored in the active set under the returned id
  \<open>symbol_timestamp\<close>, with the prices as given, 0 for each missing target, status
  \<open>active\<close> and no fills, and one insert is attempted, which is committed unless the
  database fails. This holds in both copies.
\<close>

theorem register_signal_never_rejects:
  assumes "sig_symbol d = Some smb" and "sig_direction d = Some dir"
    and "sig_entry_price d = Some e" and "sig_stop_loss d = Some sl"
    and reg: "register_signal v tr w ts now d = ((tr1, w1), res)"
  shows "res = Inr (smb @ ''_'' @ str_int ts)
       \<and> active_signals tr1 (smb @ ''_'' @ str_int ts) = Some (next_ref tr)
       \<and> signal_id (objects tr1 (next_ref tr)) = smb @ ''_'' @ str_int ts
       \<and> symbol (objects tr1 (next_ref tr)) = smb
       \<and> direction (objects tr1 (next_ref tr)) = dir
       \<and> entry_price (objects tr1 (next_ref tr)) = e
       \<and> stop_loss (objects tr1 (next_ref tr)) = sl
       \<and> tp1 (objects tr1 (next_ref tr)) = get_or_zero (sig_tp1 d)
       \<and> tp2 (objects tr1 (next_ref tr)) = get_or_zero (sig_tp2 d)
       \<and> tp3 (objects tr1 (next_ref tr)) = get_or_zero (sig_tp3 d)
       \<and> status (objects tr1 (next_ref tr)) = ''active''
       \<and> fills (objects tr1 (next_ref tr)) = []
       \<and> w1 = save_signal_to_db v (objects tr1 (next_ref tr)) w
       \<and> (db_script w = [] \<or> hd (db_script w) = Commit \<longrightarrow>
            db_committed w1 = db_committed w @ [insert_stmt v (objects tr1 (next_ref tr))])"
  using register_signal_fields [OF assms] .

theorem register_signal_never_rejects_witness:
  "sig_symbol invalid_long = Some ''BTC'' \<and> sig_direction invalid_long = Some ''long''
   \<and> sig_entry_price invalid_long = Some 100 \<and> sig_stop_loss invalid_long = Some 200
   \<and> snd registered_invalid = Inr (''BTC'' @ ''_'' @ str_int 7)
   \<and> active_signals (fst (fst registered_invalid)) (''BTC'' @ ''_'' @ str_int 7)
       = Some (next_ref init)"
proof -
  have h: "sig_symbol invalid_long = Some ''BTC''" "sig_direction invalid_long = Some ''long''"
    "sig_entry_price invalid_long = Some 100" "sig_stop_loss invalid_long = Some 200"
    by (simp_all add: invalid_long_def)
  have r: "register_signal Telegram_bot init quiet 7 0 invalid_long
     = ((fst (fst registered_invalid), snd (fst registered_invalid)), snd registered_invalid)"
    by (simp add: registered_invalid_def)
  from register_signal_never_rejects [OF h r] h show ?thesis by simp
qed

subsection \<open>Signals registered without targets\<close>

text \<open>
  Claim C10 says that every LONG signal registered without targets is closed as
  \<open>completed\<close> by a TP3 event at the first update with a price of at least 0. With
  \<open>entry_price = 0\<close> the \<open>telegram_bot\<close> copy returns an \<open>error\<close> dict instead and the
  signal stays active.
\<close>

theorem zero_entry_without_targets_stays_active:
  "snd registered_zero = Inr ''BTC_7''
   \<and> snd zero_updated = Inr (Some (Error_event ''BTC_7'' ''entry_price_zero''))
   \<and> active_signals (fst (fst zero_updated)) ''BTC_7'' = Some 0
   \<and> status (objects (fst (fst zero_updated)) 0) = ''active''
   \<and> completed_signals (fst (fst zero_updated)) = []"
  by (simp add: zero_updated_def registered_zero_def no_targets_zero_def no_targets_def
      register_signal_def set_object_def Let_def init_def quiet_def str_int_def str_nat.simps
      get_or_zero_def save_signal_to_db_def update_signal_price_def check_levels_def
      handle_tp_hit_def calculate_current_roi_def closed_percent_def)

text \<open>
  Claim C10, amended. \<open>register_signal\<close> stores 0 for each target that is missing; for
  every LONG signal registered without targets and with a non-zero entry price, the first
  update with a price of at least 0 returns a \<open>tp_hit\<close> for \<open>tp3\<close> and closes the signal
  with status \<open>completed\<close>. This holds in both copies.
\<close>

theorem register_without_targets_completes:
  assumes d: "sig_symbol d = Some smb" "sig_direction d = Some ''long''"
      "sig_entry_price d = Some e" "sig_stop_loss d = Some sl"
    and targets: "sig_tp1 d = None" "sig_tp2 d = None" "sig_tp3 d = None"
    and nz: "e \<noteq> 0"
    and reg: "register_signal v tr w ts now d = ((tr1, w1), res)"
    and p: "0 \<le> p"
    and upd: "update_signal_price v tr1 w1 now' (smb @ ''_'' @ str_int ts) p = ((tr2, w2), out)"
  shows "res = Inr (smb @ ''_'' @ str_int ts)
       \<and> tp1 (objects tr1 (next_ref tr)) = 0
       \<and> tp2 (objects tr1 (next_ref tr)) = 0
       \<and> tp3 (objects tr1 (next_ref tr)) = 0
       \<and> (\<exists>x. out = Inr (Some (Tp_hit_event (smb @ ''_'' @ str_int ts) ''tp3'' p x)))
       \<and> active_signals tr2 (smb @ ''_'' @ str_int ts) = None
       \<and> status (objects tr2 (next_ref tr)) = ''completed''
       \<and> completed_signals tr2 = completed_signals tr @ [next_ref tr]"
proof -
  let ?sid = "smb @ ''_'' @ str_int ts" and ?r = "next_ref tr"
  from register_signal_fields [OF d reg] targets
  have res: "res = Inr ?sid" and act: "active_signals tr1 ?sid = Some ?r"
    and key: "signal_id (objects tr1 ?r) = ?sid"
    and long: "direction (objects tr1 ?r) = ''long''"
    and entry: "entry_price (objects tr1 ?r) = e"
    and tps: "tp1 (objects tr1 ?r) = 0" "tp2 (objects tr1 ?r) = 0" "tp3 (objects tr1 ?r) = 0"
    by (simp_all add: get_or_zero_def)
  from reg d have flags: "\<not> tp3_hit (objects tr1 ?r)"
    and cs: "completed_signals tr1 = completed_signals tr"
    by (auto simp: register_signal_result Let_def)
  from long flags tps p have ev: "evaluate (objects tr1 ?r) p = Some ''tp3''"
    by (simp add: evaluate_def)
  have cl: "closing (set_flag ''tp3'' (objects tr1 ?r)) ''tp3''"
    by (simp add: closing_def)
  from entry nz have nz': "entry_price (objects tr1 ?r) \<noteq> 0" by simp
  from act key have self: "active_signals tr1 (signal_id (objects tr1 ?r)) = Some ?r" by simp
  from update_closing_level [OF act nz' ev cl self, of v w1 now'] upd key cs
  have "out = Inr (Some (threshold_event tr1 (objects tr1 ?r) ''tp3'' p))"
    and "active_signals tr2 ?sid = None"
    and "status (objects tr2 ?r) = ''completed''"
    and "completed_signals tr2 = completed_signals tr @ [?r]"
    by (auto simp: priced_def closed_object_def final_status_def)
  with res tps key show ?thesis
    by (simp add: threshold_event_def)
qed

theorem register_without_targets_completes_witness:
  "sig_symbol no_targets = Some ''BTC'' \<and> sig_direction no_targets = Some ''long''
   \<and> sig_entry_price no_targets = Some 100 \<and> sig_stop_loss no_targets = Some 90
   \<and> sig_tp1 no_targets = None \<and> sig_tp2 no_targets = None \<and> sig_tp3 no_targets = None
   \<and> (100 :: real) \<noteq> 0 \<and> (0 :: real) \<le> 5
   \<and> (\<exists>x. snd no_targets_updated
          = Inr (Some (Tp_hit_event (''BTC'' @ ''_'' @ str_int 7) ''tp3'' 5 x)))
   \<and> status (objects (fst (fst no_targets_updated)) (next_ref init)) = ''completed''"
proof -
  have h: "sig_symbol no_targets = Some ''BTC''" "sig_direction no_targets = Some ''long''"
    "sig_entry_price no_targets = Some 100" "sig_stop_loss no_targets = Some 90"
    and t: "sig_tp1 no_targets = None" "sig_tp2 no_targets = None" "sig_tp3 no_targets = None"
    by (simp_all add: no_targets_def)
  have r: "register_signal Trading init quiet 7 0 no_targets
     = ((fst (fst registered_no_targets), snd (fst registered_no_targets)),
        snd registered_no_targets)"
    by (simp add: registered_no_targets_def)
  have u: "update_signal_price Trading (fst (fst registered_no_targets))
     (snd (fst registered_no_targets)) 1 (''BTC'' @ ''_'' @ str_int 7) 5
     = ((fst (fst no_targets_updated), snd (fst no_targets_updated)), snd no_targets_updated)"
    by (simp add: no_targets_updated_def)
  have nz: "(100 :: real) \<noteq> 0" and p: "(0 :: real) \<le> 5" by simp_all
  from register_without_targets_completes [OF h t nz r p u] h t
  show ?thesis by simp
qed

subsection \<open>Statistics\<close>





subsection \<open>Rising price paths\<close>

text \<open>
  Claim C7 says that every rising LONG path that crosses the three targets fires TP1, TP2
  and TP3 once each, in this order. The path that goes from the entry price 100 straight
  to 135, above \<open>tp3 = 130\<close>, fires TP3 alone, which closes the signal.
\<close>

theorem jump_fires_only_tp3:
  "sorted (map snd jump_path)
   \<and> direction (objects one_signal 0) = ''long''
   \<and> entry_price (objects one_signal 0) = 100
   \<and> tp1 (objects one_signal 0) = 110 \<and> tp2 (objects one_signal 0) = 120
   \<and> tp3 (objects one_signal 0) = 130
   \<and> map event_level (fired (snd (feed Telegram_bot one_signal quiet ''BTC_7'' jump_path)))
       = [Some ''tp3'']"
proof -
  have st: "long_state one_signal ''BTC_7'' 0 90 110 120 130 False False"
    by (simp add: long_state_def one_signal_object one_signal_active example_long_def)
  have "\<forall>p \<in> set (map snd jump_path). (90::real) < p" by (simp add: jump_path_def)
  from feed_long_trace [OF st this, of Telegram_bot quiet] show ?thesis
    by (simp add: jump_path_def one_signal_object example_long_def)
qed

text \<open>
  Claim C7, amended. For a LONG signal with a non-zero entry price and no target hit yet,
  fed a rising path whose prices stay above the stop and which has at least one tick in
  each of the bands from \<open>tp1\<close> to \<open>tp2\<close>, from \<open>tp2\<close> to \<open>tp3\<close> and from \<open>tp3\<close> on,
  the events fired are exactly TP1, TP2 and TP3, once each and in this order; no stop
  fires. This holds in both copies.
\<close>

theorem rising_path_fires_targets_in_order:
  assumes "active_signals tr sid = Some r" and "signal_id (objects tr r) = sid"
    and "direction (objects tr r) = ''long''" and "entry_price (objects tr r) \<noteq> 0"
    and "\<not> tp1_hit (objects tr r)" and "\<not> tp2_hit (objects tr r)"
    and "\<not> tp3_hit (objects tr r)"
    and "tp1 (objects tr r) < tp2 (objects tr r)" and "tp2 (objects tr r) < tp3 (objects tr r)"
    and "sorted (map snd ticks)"
    and "\<forall>p \<in> set (map snd ticks). stop_loss (objects tr r) < p"
    and "\<exists>p \<in> set (map snd ticks). tp1 (objects tr r) \<le> p \<and> p < tp2 (objects tr r)"
    and "\<exists>p \<in> set (map snd ticks). tp2 (objects tr r) \<le> p \<and> p < tp3 (objects tr r)"
    and "\<exists>p \<in> set (map snd ticks). tp3 (objects tr r) \<le> p"
  shows "map event_level (fired (snd (feed v tr w sid ticks)))
         = [Some ''tp1'', Some ''tp2'', Some ''tp3'']"
proof -
  let ?m = "objects tr r"
  from assms(1-7) have st: "long_state tr sid r (stop_loss ?m) (tp1 ?m) (tp2 ?m) (tp3 ?m) False False"
    by (simp add: long_state_def)
  from feed_long_trace [OF st assms(11), of v w]
    long_trace_all [OF assms(10) assms(8,9) assms(12-14)]
  show ?thesis by simp
qed

theorem rising_path_fires_targets_in_order_witness:
  "active_signals one_signal ''BTC_7'' = Some 0
   \<and> signal_id (objects one_signal 0) = ''BTC_7''
   \<and> direction (objects one_signal 0) = ''long''
   \<and> entry_price (objects one_signal 0) \<noteq> 0
   \<and> sorted (map snd band_path)
   \<and> stop_loss (objects one_signal 0) < snd (hd band_path)
   \<and> map event_level (fired (snd (feed Trading one_signal quiet ''BTC_7'' band_path)))
       = [Some ''tp1'', Some ''tp2'', Some ''tp3'']"
proof -
  have h: "active_signals one_signal ''BTC_7'' = Some 0"
    "signal_id (objects one_signal 0) = ''BTC_7''"
    "direction (objects one_signal 0) = ''long''"
    "entry_price (objects one_signal 0) \<noteq> 0"
    "\<not> tp1_hit (objects one_signal 0)" "\<not> tp2_hit (objects one_signal 0)"
    "\<not> tp3_hit (objects one_signal 0)"
    "tp1 (objects one_signal 0) < tp2 (objects one_signal 0)"
    "tp2 (objects one_signal 0) < tp3 (objects one_signal 0)"
    "sorted (map snd band_path)"
    "\<forall>p \<in> set (map snd band_path). stop_loss (objects one_signal 0) < p"
    "\<exists>p \<in> set (map snd band_path). tp1 (objects one_signal 0) \<le> p \<and> p < tp2 (objects one_signal 0)"
    "\<exists>p \<in> set (map snd band_path). tp2 (objects one_signal 0) \<le> p \<and> p < tp3 (objects one_signal 0)"
    "\<exists>p \<in> set (map snd band_path). tp3 (objects one_signal 0) \<le> p"
    by (simp_all add: one_signal_object one_signal_active example_long_def band_path_def)
  have low: "stop_loss (objects one_signal 0) < snd (hd band_path)"
    by (simp add: one_signal_object example_long_def band_path_def)
  from rising_path_fires_targets_in_order [OF h, of Trading quiet] h(1-4,10) low
  show ?thesis by simp
qed


subsection \<open>The fractions of the fills\<close>

text \<open>
  Claim C2 says that in every reachable state the fractions of a signal's fills and its
  open fraction add up to 1.0, so that the fills of a closed signal add up to exactly 1.0.
  A signal whose first tick is above \<open>tp3\<close> is closed as \<open>completed\<close> with the single TP3
  fill of 25%.
\<close>

theorem tp3_first_completes_with_quarter_filled:
  "reachable Telegram_bot (fst (fst jumped))
   \<and> completed_signals (fst (fst jumped)) = [0]
   \<and> status (objects (fst (fst jumped)) 0) = ''completed''
   \<and> filled_fraction (objects (fst (fst jumped)) 0) = 0.25"
  using reachable_jumped jumped_state by simp

text \<open>
  Claim C2, amended. In every tracker reachable by \<open>register_signal\<close> and
  \<open>update_signal_price\<close>, for every signal with a non-zero entry price: while it is
  active, the fractions of its fills plus the open fraction, 1 minus the allocations of
  the targets hit, equal 1; once \<open>stopped\<close>, its fills add up to exactly 1; once
  \<open>completed\<close>, they add up to the allocations of the targets hit, which is 1 when all
  three were hit. This holds in both copies.
\<close>

theorem reachable_fill_fractions:
  assumes "reachable v tr"
  shows "(\<forall>sid r. active_signals tr sid = Some r \<longrightarrow> entry_price (objects tr r) \<noteq> 0 \<longrightarrow>
            status (objects tr r) = ''active''
            \<and> filled_fraction (objects tr r) + (1 - closed_percent tr (objects tr r)) = 1)
       \<and> (\<forall>r \<in> set (completed_signals tr). entry_price (objects tr r) \<noteq> 0 \<longrightarrow>
            (status (objects tr r) = ''stopped'' \<and> filled_fraction (objects tr r) = 1)
          \<or> (status (objects tr r) = ''completed''
               \<and> filled_fraction (objects tr r) = closed_percent tr (objects tr r)
               \<and> (tp1_hit (objects tr r) \<and> tp2_hit (objects tr r) \<and> tp3_hit (objects tr r)
                    \<longrightarrow> filled_fraction (objects tr r) = 1)))"
proof -
  from reachable_inv [OF assms] have inv: "tracker_inv tr" .
  then have cfg: "tp1_percentage tr = 0.25" "tp2_percentage tr = 0.50" "tp3_percentage tr = 0.25"
    by (simp_all add: tracker_inv_def)
  have full: "tp1_hit m \<and> tp2_hit m \<and> tp3_hit m \<longrightarrow> closed_percent tr m = 1" for m
    by (simp add: closed_percent_def cfg)
  have "status (objects tr r) = ''active''
            \<and> filled_fraction (objects tr r) + (1 - closed_percent tr (objects tr r)) = 1"
    if "active_signals tr sid = Some r" "entry_price (objects tr r) \<noteq> 0" for sid r
    using inv that by (simp add: tracker_inv_def)
  moreover have "(status (objects tr r) = ''stopped'' \<and> filled_fraction (objects tr r) = 1)
          \<or> (status (objects tr r) = ''completed''
               \<and> filled_fraction (objects tr r) = closed_percent tr (objects tr r)
               \<and> (tp1_hit (objects tr r) \<and> tp2_hit (objects tr r) \<and> tp3_hit (objects tr r)
                    \<longrightarrow> filled_fraction (objects tr r) = 1))"
    if "r \<in> set (completed_signals tr)" "entry_price (objects tr r) \<noteq> 0" for r
  proof -
    from inv that have "(status (objects tr r) = ''stopped'' \<and> filled_fraction (objects tr r) = 1)
          \<or> (status (objects tr r) = ''completed''
               \<and> filled_fraction (objects tr r) = closed_percent tr (objects tr r))"
      by (simp add: tracker_inv_def)
    with full [of "objects tr r"] show ?thesis by auto
  qed
  ultimately show ?thesis by blast
qed

theorem reachable_fill_fractions_witness:
  "reachable Telegram_bot (fst (fst dropped))
   \<and> 0 \<in> set (completed_signals (fst (fst dropped)))
   \<and> entry_price (objects (fst (fst dropped)) 0) \<noteq> 0
   \<and> status (objects (fst (fst dropped)) 0) = ''stopped''
   \<and> filled_fraction (objects (fst (fst dropped)) 0) = 1"
proof -
  have a: "0 \<in> set (completed_signals (fst (fst dropped)))"
    and b: "entry_price (objects (fst (fst dropped)) 0) \<noteq> 0"
    and c: "status (objects (fst (fst dropped)) 0) = ''stopped''"
    by (simp_all add: dropped_state)
  from reachable_fill_fractions [OF reachable_dropped] a b c
  have "filled_fraction (objects (fst (fst dropped)) 0) = 1" by auto
  with reachable_dropped a b c show ?thesis by simp
qed

end
